theory Spec2Isabelle
  imports Complex_Main "HOL-Library.List_Lexorder" "HOL-Library.Char_ord"
begin

section \<open>Data model of the dashboard (\<^verbatim>\<open>App.jsx\<close>)\<close>

text \<open>
  The dashboard keeps five fetched series in component state and recomputes every derived
  value from them. A numeric field holds the decimal number of the JSON text; the program
  sees the double nearest to it and computes in double precision, every operation rounding
  its exact result to the nearest double (section ``Double-precision arithmetic'').
  Overflow to an infinity (magnitudes from \<open>2\<^sup>1\<^sup>0\<^sup>2\<^sup>4\<close> on) and \<^verbatim>\<open>NaN\<close> are outside this
  part of the model (the chart components further down, whose whole point is \<^verbatim>\<open>NaN\<close>,
  get a value type of their own). A field that may be \<^verbatim>\<open>undefined\<close> or \<^verbatim>\<open>null\<close> in
  the JSON is an \<open>option\<close>. Dates and stage names are strings;
  \<^verbatim>\<open>Array.prototype.sort()\<close> without a comparator orders strings lexicographically by
  code unit, which is the order of \<open>char list\<close> here.
\<close>

record dated =
  date :: string

record sleep_row = dated +
  stage :: string
  mins :: "real option"

record hr_row = dated +
  avg_bpm :: "real option"
  min_bpm :: "real option"
  max_bpm :: "real option"

record steps_row = dated +
  steps :: "real option"

record cal_row = dated +
  kcal :: "real option"

text \<open>An intraday sample is \<^verbatim>\<open>{ts, avg_bpm}\<close>; it is only plotted.\<close>

type_synonym hr_sample = "string \<times> real option"

record snapshot =
  sleepRows :: "sleep_row list"
  hr7 :: "hr_row list"
  hrIntra :: "hr_sample list"
  steps7 :: "steps_row list"
  cal7 :: "cal_row list"

subsection \<open>JavaScript idioms\<close>

text \<open>\<^verbatim>\<open>v || 0\<close> on an optional number: \<^verbatim>\<open>undefined\<close>, \<^verbatim>\<open>null\<close> and \<^verbatim>\<open>0\<close> all give 0.\<close>

definition or0 :: "real option \<Rightarrow> real" where
  "or0 v = (case v of None \<Rightarrow> 0 | Some x \<Rightarrow> x)"

text \<open>\<^verbatim>\<open>xs.reduce((a,b) => a+b, 0)\<close>: a left fold from 0.\<close>

definition reduce_add :: "'a::monoid_add list \<Rightarrow> 'a" where
  "reduce_add xs = foldl (\<lambda>a b. a + b) 0 xs"

text \<open>
  \<^verbatim>\<open>[...new Set(xs)]\<close>: a \<^verbatim>\<open>Set\<close> keeps the first occurrence of each value, in
  insertion order.
\<close>

definition new_Set :: "'a list \<Rightarrow> 'a list" where
  "new_Set xs = foldl (\<lambda>acc x. if x \<in> set acc then acc else acc @ [x]) [] xs"

text \<open>\<^verbatim>\<open>xs.slice(-k)\<close>: the last \<open>k\<close> elements, all of them when there are fewer.\<close>

definition slice_last :: "nat \<Rightarrow> 'a list \<Rightarrow> 'a list" where
  "slice_last k xs = drop (length xs - k) xs"

section \<open>Double-precision arithmetic\<close>

text \<open>
  A JavaScript number is an IEEE 754 binary64 value. The finite ones are the reals
  \<open>n * 2\<^sup>k\<close> with \<open>\<bar>n\<bar> < 2\<^sup>5\<^sup>3\<close> and \<open>k \<ge> -1074\<close>; \<open>+\<close>, \<open>-\<close>, \<open>*\<close> and \<open>/\<close> return the
  double nearest to the exact result, a tie going to the even significand.
\<close>

text \<open>Rounding to the nearest integer, halves to the even one.\<close>

definition rne :: "real \<Rightarrow> int" where
  "rne y =
     (let f = \<lfloor>y\<rfloor>; r = y - of_int f
      in if r < 1 / 2 then f else if 1 / 2 < r then f + 1 else if even f then f else f + 1)"

text \<open>The binary exponent of a positive real: \<open>2\<^sup>e \<le> x < 2\<^sup>e\<^sup>+\<^sup>1\<close> for \<open>e = expo x\<close>.\<close>

function expo :: "real \<Rightarrow> int" where
  "expo x = (if x \<le> 0 then 0 else if 2 \<le> x then expo (x / 2) + 1
             else if x < 1 then expo (2 * x) - 1 else 0)"
  by pat_completeness auto
termination
proof (relation "measure (\<lambda>x. if 1 \<le> x then nat \<lfloor>x\<rfloor> else nat \<lceil>1 / x\<rceil> + 1)")
  show "wf (measure (\<lambda>x::real. if 1 \<le> x then nat \<lfloor>x\<rfloor> else nat \<lceil>1 / x\<rceil> + 1))" by simp
next
  fix x :: real
  assume "\<not> x \<le> 0" "2 \<le> x"
  then have "\<lfloor>x / 2\<rfloor> < \<lfloor>x\<rfloor>" "0 < \<lfloor>x\<rfloor>" by linarith+
  then show "(x / 2, x) \<in> measure (\<lambda>x. if 1 \<le> x then nat \<lfloor>x\<rfloor> else nat \<lceil>1 / x\<rceil> + 1)"
    using \<open>2 \<le> x\<close> by auto
next
  fix x :: real
  assume a: "\<not> x \<le> 0" "\<not> 2 \<le> x" "x < 1"
  then have x: "0 < x" by simp
  have "1 < 1 / x" using a x by (simp add: field_simps)
  then have c: "2 \<le> \<lceil>1 / x\<rceil>" by linarith
  show "(2 * x, x) \<in> measure (\<lambda>x. if 1 \<le> x then nat \<lfloor>x\<rfloor> else nat \<lceil>1 / x\<rceil> + 1)"
  proof (cases "1 \<le> 2 * x")
    case True
    then have "\<lfloor>2 * x\<rfloor> = 1" using a by linarith
    then show ?thesis using True a c by auto
  next
    case False
    define y where "y = 1 / x"
    have y: "1 < y" using \<open>1 < 1 / x\<close> by (simp add: y_def)
    have "\<lceil>y / 2\<rceil> < \<lceil>y\<rceil>"
    proof (cases "2 \<le> y")
      case True
      then show ?thesis by linarith
    next
      case False
      then have "\<lceil>y / 2\<rceil> = 1" "\<lceil>y\<rceil> = 2" using y by linarith+
      then show ?thesis by simp
    qed
    moreover have "1 / (2 * x) = y / 2" by (simp add: y_def)
    ultimately have "\<lceil>1 / (2 * x)\<rceil> < \<lceil>1 / x\<rceil>" by (simp only: y_def)
    then show ?thesis using False a c by auto
  qed
qed

declare expo.simps [simp del]

text \<open>
  The double nearest to a real. The spacing of the doubles around \<open>x\<close> is
  \<open>2\<^sup>e\<^sup>-\<^sup>5\<^sup>2\<close> for the exponent \<open>e\<close> of \<open>\<bar>x\<bar>\<close>, and \<open>2\<^sup>-\<^sup>1\<^sup>0\<^sup>7\<^sup>4\<close> below \<open>2\<^sup>-\<^sup>1\<^sup>0\<^sup>2\<^sup>2\<close>.
\<close>

definition dbl :: "real \<Rightarrow> real" where
  "dbl x =
     (if x = 0 then 0
      else let q = 2 powi (max (- 1022) (expo \<bar>x\<bar>) - 52) in of_int (rne (x / q)) * q)"

text \<open>The four operations on doubles.\<close>

definition fadd :: "real \<Rightarrow> real \<Rightarrow> real" where
  "fadd a b = dbl (a + b)"

definition fsub :: "real \<Rightarrow> real \<Rightarrow> real" where
  "fsub a b = dbl (a - b)"

definition fmul :: "real \<Rightarrow> real \<Rightarrow> real" where
  "fmul a b = dbl (a * b)"

definition fdiv :: "real \<Rightarrow> real \<Rightarrow> real" where
  "fdiv a b = dbl (a / b)"

text \<open>
  Reading an optional numeric field with \<^verbatim>\<open>v || 0\<close>: the double of the decimal in the
  JSON text, 0 when the field is missing.
\<close>

definition num :: "real option \<Rightarrow> real" where
  "num v = dbl (or0 v)"

text \<open>\<^verbatim>\<open>xs.reduce((a,b) => a+b, 0)\<close> on doubles.\<close>

definition reduce_fadd :: "real list \<Rightarrow> real" where
  "reduce_fadd xs = foldl fadd 0 xs"

section \<open>Date alignment and stage aggregation\<close>

text \<open>
  \<^verbatim>\<open>const uniq = [...new Set(sleepRows.map(r => r.date))].sort();
  return uniq.slice(-7);\<close>
\<close>

definition sleepDates :: "sleep_row list \<Rightarrow> string list" where
  "sleepDates rows = (let uniq = sort (new_Set (map date rows)) in slice_last 7 uniq)"

text \<open>
  \<^verbatim>\<open>map[r.date] = map[r.date] || {};
  map[r.date][r.stage] = (map[r.date][r.stage] || 0) + (r.mins || 0);\<close>
  The object of objects is a map from dates to maps from stage names to minutes. This is
  what the program does as long as no date and no stage name is a property that every
  object inherits from \<^verbatim>\<open>Object.prototype\<close>: for such a key \<^verbatim>\<open>map[r.date]\<close> or
  \<^verbatim>\<open>map[r.date][r.stage]\<close> reads the inherited value instead of \<^verbatim>\<open>undefined\<close>. The
  statements about the aggregation are therefore made for \<open>plain_rows\<close>.
\<close>

definition inherited_names :: "string list" where
  "inherited_names =
     [''__proto__'', ''constructor'', ''hasOwnProperty'', ''isPrototypeOf'',
      ''propertyIsEnumerable'', ''toLocaleString'', ''toString'', ''valueOf'',
      ''__defineGetter__'', ''__defineSetter__'', ''__lookupGetter__'', ''__lookupSetter__'']"

definition plain_key :: "string \<Rightarrow> bool" where
  "plain_key k = (k \<notin> set inherited_names)"

definition plain_rows :: "sleep_row list \<Rightarrow> bool" where
  "plain_rows rows = list_all (\<lambda>r. plain_key (date r) \<and> plain_key (stage r)) rows"

type_synonym stage_map = "string \<rightharpoonup> real"

definition add_row :: "(string \<rightharpoonup> stage_map) \<Rightarrow> sleep_row \<Rightarrow> (string \<rightharpoonup> stage_map)" where
  "add_row m r =
     (let inner = (case m (date r) of None \<Rightarrow> Map.empty | Some i \<Rightarrow> i)
      in m(date r \<mapsto> inner(stage r \<mapsto> fadd (or0 (inner (stage r))) (num (mins r)))))"

definition sleepByDate :: "sleep_row list \<Rightarrow> (string \<rightharpoonup> stage_map)" where
  "sleepByDate rows = foldl add_row Map.empty rows"

text \<open>\<^verbatim>\<open>sleepByDate[d]?.[s] || 0\<close>\<close>

definition stageMinutes :: "(string \<rightharpoonup> stage_map) \<Rightarrow> string \<Rightarrow> string \<Rightarrow> real" where
  "stageMinutes m d s = (case m d of None \<Rightarrow> 0 | Some i \<Rightarrow> or0 (i s))"

text \<open>
  \<^verbatim>\<open>['Light sleep','Deep sleep','REM sleep'].reduce((a,s) => a + (sleepByDate[d]?.[s]||0), 0)\<close>,
  the expression the headline KPI, the readiness score, the sleep-debt series and the
  projection all repeat.
\<close>

definition sleepStages :: "string list" where
  "sleepStages = [''Light sleep'', ''Deep sleep'', ''REM sleep'']"

definition totalSleepMinutes :: "(string \<rightharpoonup> stage_map) \<Rightarrow> string \<Rightarrow> real" where
  "totalSleepMinutes m d = foldl (\<lambda>a s. fadd a (stageMinutes m d s)) 0 sleepStages"

text \<open>
  \<^verbatim>\<open>const last = sleepDates[sleepDates.length-1]\<close> is \<^verbatim>\<open>undefined\<close> for an empty
  array; the tests \<^verbatim>\<open>if (!last)\<close> and \<^verbatim>\<open>last ? ... : 0\<close> are also false for the
  empty string.
\<close>

definition lastDate :: "string list \<Rightarrow> string option" where
  "lastDate ds = (if ds = [] then None else Some (last ds))"

definition truthy :: "string option \<Rightarrow> bool" where
  "truthy v = (case v of None \<Rightarrow> False | Some s \<Rightarrow> s \<noteq> [])"

text \<open>
  The headline KPI: \<^verbatim>\<open>'--'\<close> (here \<open>None\<close>) or \<^verbatim>\<open>Math.round(total) + ' min'\<close> (here the
  number shown). \<^verbatim>\<open>Math.round\<close> rounds halves up, as \<^const>\<open>round\<close> does.
\<close>

definition kpiSleepMin :: "snapshot \<Rightarrow> int option" where
  "kpiSleepMin s =
     (let l = lastDate (sleepDates (sleepRows s))
      in if \<not> truthy l then None
         else Some (round (totalSleepMinutes (sleepByDate (sleepRows s)) (the l))))"

section \<open>Readiness score\<close>

definition goal :: real where
  "goal = 8 * 60"

definition sleepMin :: "sleep_row list \<Rightarrow> real" where
  "sleepMin rows =
     (let l = lastDate (sleepDates rows)
      in if truthy l then totalSleepMinutes (sleepByDate rows) (the l) else 0)"

subsection \<open>The component scores, with the arithmetic read exactly\<close>

text \<open>
  The definitions of this subsection take \<open>+\<close>, \<open>-\<close> and \<open>/\<close> as the operations on the
  reals; they say what each component score measures. The next subsection has the same
  lines in double precision, which is what the program computes and what \<open>readiness\<close>
  is made of.
\<close>

text \<open>\<^verbatim>\<open>Math.max(0, Math.min(1, (goal ? sleepMin/goal : 0.5)))\<close>\<close>

definition sleepScore :: "real \<Rightarrow> real" where
  "sleepScore m = max 0 (min 1 (if goal \<noteq> 0 then m / goal else 0.5))"

text \<open>\<^verbatim>\<open>hr7.map(r => r.avg_bpm).filter(v => v != null)\<close>\<close>

definition hrAvg :: "hr_row list \<Rightarrow> real list" where
  "hrAvg hs = map the (filter (\<lambda>v. v \<noteq> None) (map avg_bpm hs))"

definition weeklyAvg :: "hr_row list \<Rightarrow> real" where
  "weeklyAvg hs =
     (if length (hrAvg hs) \<noteq> 0 then reduce_add (hrAvg hs) / real (length (hrAvg hs)) else 0)"

text \<open>
  \<^verbatim>\<open>hrAvg.length ? (hr7[hr7.length-1].avg_bpm ?? weeklyAvg) : weeklyAvg\<close>; the last
  record exists whenever \<open>hrAvg\<close> is not empty.
\<close>

definition yesterday :: "hr_row list \<Rightarrow> real" where
  "yesterday hs =
     (if length (hrAvg hs) \<noteq> 0
      then (case avg_bpm (last hs) of None \<Rightarrow> weeklyAvg hs | Some v \<Rightarrow> v)
      else weeklyAvg hs)"

definition hrScore :: "hr_row list \<Rightarrow> real" where
  "hrScore hs = max 0 (min 1 (1 - ((yesterday hs - weeklyAvg hs) / 20)))"

definition stepsVals :: "steps_row list \<Rightarrow> real list" where
  "stepsVals ss = map (\<lambda>r. or0 (steps r)) ss"

definition sAvg :: "steps_row list \<Rightarrow> real" where
  "sAvg ss =
     (if length (stepsVals ss) \<noteq> 0
      then reduce_add (stepsVals ss) / real (length (stepsVals ss)) else 0)"

text \<open>
  \<^verbatim>\<open>sAvg ? (stepsVals[stepsVals.length-1] / sAvg) : 1\<close>; \<open>sAvg\<close> is 0 for an empty
  series, so the last element is only read when there is one.
\<close>

definition rel :: "steps_row list \<Rightarrow> real" where
  "rel ss = (if sAvg ss \<noteq> 0 then last (stepsVals ss) / sAvg ss else 1)"

text \<open>
  \<^verbatim>\<open>let stepsScore = 1.0; if (rel>1.35) stepsScore=.8; else if (rel<0.6) stepsScore=.86;
  else if (rel<0.85||rel>1.15) stepsScore=.94;\<close>
\<close>

definition stepsScoreOf :: "real \<Rightarrow> real" where
  "stepsScoreOf x =
     (if x > 1.35 then 0.8
      else if x < 0.6 then 0.86
      else if x < 0.85 \<or> x > 1.15 then 0.94
      else 1.0)"

definition stepsScore :: "steps_row list \<Rightarrow> real" where
  "stepsScore ss = stepsScoreOf (rel ss)"

subsection \<open>The component scores and the readiness score in double precision\<close>

text \<open>
  Lines 84 to 96 of \<^verbatim>\<open>App.jsx\<close> as the program evaluates them. A literal such as
  \<^verbatim>\<open>0.3\<close> is the double \<open>dbl 0.3\<close>; \<^verbatim>\<open>0.5\<close>, \<^verbatim>\<open>1\<close>, \<^verbatim>\<open>20\<close>, \<^verbatim>\<open>100\<close> and
  \<^verbatim>\<open>8*60\<close> are doubles themselves. \<^verbatim>\<open>Math.max\<close>, \<^verbatim>\<open>Math.min\<close> and the comparisons
  are exact.
\<close>

definition sleepScore_fp :: "real \<Rightarrow> real" where
  "sleepScore_fp m = max 0 (min 1 (if goal \<noteq> 0 then fdiv m goal else 0.5))"

definition hrAvg_fp :: "hr_row list \<Rightarrow> real list" where
  "hrAvg_fp hs = map (\<lambda>v. dbl (the v)) (filter (\<lambda>v. v \<noteq> None) (map avg_bpm hs))"

definition weeklyAvg_fp :: "hr_row list \<Rightarrow> real" where
  "weeklyAvg_fp hs =
     (if length (hrAvg_fp hs) \<noteq> 0
      then fdiv (reduce_fadd (hrAvg_fp hs)) (real (length (hrAvg_fp hs))) else 0)"

definition yesterday_fp :: "hr_row list \<Rightarrow> real" where
  "yesterday_fp hs =
     (if length (hrAvg_fp hs) \<noteq> 0
      then (case avg_bpm (last hs) of None \<Rightarrow> weeklyAvg_fp hs | Some v \<Rightarrow> dbl v)
      else weeklyAvg_fp hs)"

definition hrScore_fp :: "hr_row list \<Rightarrow> real" where
  "hrScore_fp hs =
     max 0 (min 1 (fsub 1 (fdiv (fsub (yesterday_fp hs) (weeklyAvg_fp hs)) 20)))"

definition stepsVals_fp :: "steps_row list \<Rightarrow> real list" where
  "stepsVals_fp ss = map (\<lambda>r. num (steps r)) ss"

definition sAvg_fp :: "steps_row list \<Rightarrow> real" where
  "sAvg_fp ss =
     (if length (stepsVals_fp ss) \<noteq> 0
      then fdiv (reduce_fadd (stepsVals_fp ss)) (real (length (stepsVals_fp ss))) else 0)"

definition rel_fp :: "steps_row list \<Rightarrow> real" where
  "rel_fp ss = (if sAvg_fp ss \<noteq> 0 then fdiv (last (stepsVals_fp ss)) (sAvg_fp ss) else 1)"

definition stepsScoreOf_fp :: "real \<Rightarrow> real" where
  "stepsScoreOf_fp x =
     (if x > dbl 1.35 then dbl 0.8
      else if x < dbl 0.6 then dbl 0.86
      else if x < dbl 0.85 \<or> x > dbl 1.15 then dbl 0.94
      else 1.0)"

definition stepsScore_fp :: "steps_row list \<Rightarrow> real" where
  "stepsScore_fp ss = stepsScoreOf_fp (rel_fp ss)"

text \<open>
  \<^verbatim>\<open>Math.round(100*(0.5*sleepScore + 0.3*hrScore + 0.2*stepsScore))\<close>: the sum
  associates to the left, and \<^verbatim>\<open>Math.round\<close> of a double is exact.
\<close>

definition readiness :: "snapshot \<Rightarrow> int" where
  "readiness s =
     round (fmul 100
       (fadd (fadd (fmul 0.5 (sleepScore_fp (sleepMin (sleepRows s))))
                   (fmul (dbl 0.3) (hrScore_fp (hr7 s))))
             (fmul (dbl 0.2) (stepsScore_fp (steps7 s)))))"

section \<open>Readiness projection\<close>

text \<open>
  The projection dataset first computes \<open>hist\<close>, one rounded score per aligned date,
  and then extrapolates it. The extrapolation reads nothing but \<open>hist\<close>:
  \<^verbatim>\<open>const lastR = hist.length ? hist[hist.length-1] : 70;
  const meanR = hist.length ? Math.round(hist.reduce((a,b)=>a+b,0)/hist.length) : 70;
  const proj1 = Math.round(0.6*lastR + 0.4*meanR);
  const proj2 = Math.round(0.6*proj1 + 0.4*meanR);
  const proj3 = Math.round(0.6*proj2 + 0.4*meanR);
  return [...hist.slice(-3), proj1, proj2, proj3];\<close>
  The scores in \<open>hist\<close> are results of \<^verbatim>\<open>Math.round\<close>, hence integers.
\<close>

definition lastR :: "int list \<Rightarrow> int" where
  "lastR hist = (if length hist \<noteq> 0 then last hist else 70)"

definition meanR :: "int list \<Rightarrow> int" where
  "meanR hist =
     (if length hist \<noteq> 0
      then round (real_of_int (reduce_add hist) / real (length hist)) else 70)"

definition proj1 :: "int list \<Rightarrow> int" where
  "proj1 hist = round (0.6 * real_of_int (lastR hist) + 0.4 * real_of_int (meanR hist))"

definition proj2 :: "int list \<Rightarrow> int" where
  "proj2 hist = round (0.6 * real_of_int (proj1 hist) + 0.4 * real_of_int (meanR hist))"

definition proj3 :: "int list \<Rightarrow> int" where
  "proj3 hist = round (0.6 * real_of_int (proj2 hist) + 0.4 * real_of_int (meanR hist))"

definition projection :: "int list \<Rightarrow> int list" where
  "projection hist = slice_last 3 hist @ [proj1 hist, proj2 hist, proj3 hist]"

section \<open>Chart data shaping (\<^verbatim>\<open>TrendLine.jsx\<close>, \<^verbatim>\<open>StackedBar.jsx\<close>)\<close>

text \<open>
  The chart components receive arbitrary JSON-like values (the coach's chart
  specification is passed through unchecked), so the entries of a series are JavaScript
  values. A number is a real, an infinity or \<^verbatim>\<open>NaN\<close>.

  The components observe a string only through \<^verbatim>\<open>v === ''\<close>, its truthiness and
  \<^verbatim>\<open>Number(v)\<close>; a non-empty string is therefore represented by the number that
  \<^verbatim>\<open>Number\<close> converts it to: \<open>JString (Num 12)\<close> stands for \<^verbatim>\<open>'12'\<close>,
  \<open>JString (Num 0)\<close> for \<^verbatim>\<open>' '\<close> or \<^verbatim>\<open>'0'\<close>, and \<open>JString NaN\<close> for any string
  that is not a numeric literal, such as \<^verbatim>\<open>'abc'\<close>. Objects and arrays as entries are
  left out.
\<close>

datatype jsnum = Num real | PosInfinity | NegInfinity | NaN

datatype jsval = JUndefined | JNull | JBool bool | JNumber jsnum | JEmptyString | JString jsnum

text \<open>The built-in \<^verbatim>\<open>Number(v)\<close>.\<close>

fun Number :: "jsval \<Rightarrow> jsnum" where
  "Number JUndefined = NaN"
| "Number JNull = Num 0"
| "Number (JBool b) = Num (if b then 1 else 0)"
| "Number (JNumber n) = n"
| "Number JEmptyString = Num 0"
| "Number (JString n) = n"

text \<open>The values \<^verbatim>\<open>||\<close> skips: \<^verbatim>\<open>undefined\<close>, \<^verbatim>\<open>null\<close>, \<^verbatim>\<open>false\<close>, \<^verbatim>\<open>0\<close>, \<^verbatim>\<open>NaN\<close>, \<^verbatim>\<open>''\<close>.\<close>

fun falsy :: "jsval \<Rightarrow> bool" where
  "falsy JUndefined = True"
| "falsy JNull = True"
| "falsy (JBool b) = (\<not> b)"
| "falsy (JNumber n) = (n = Num 0 \<or> n = NaN)"
| "falsy JEmptyString = True"
| "falsy (JString n) = False"

text \<open>
  A dataset is an object with a label, a \<^verbatim>\<open>data\<close> array (possibly missing) and
  styling; only the first two are modelled. The type parameter is the type of
  \<^verbatim>\<open>data\<close>, which the components change.
\<close>

record 'a dataset =
  label :: string
  data :: 'a

text \<open>
  \<^verbatim>\<open>(d.data || []).map(v => (v == null || v === '' ? null : Number(v)))\<close>.
  \<^verbatim>\<open>v == null\<close> holds of \<^verbatim>\<open>null\<close> and \<^verbatim>\<open>undefined\<close> only; the emitted \<^verbatim>\<open>null\<close>
  is \<open>None\<close>.
\<close>

definition trendPoint :: "jsval \<Rightarrow> jsnum option" where
  "trendPoint v =
     (if v = JUndefined \<or> v = JNull \<or> v = JEmptyString then None else Some (Number v))"

definition TrendLine :: "jsval list option dataset list \<Rightarrow> jsnum option list dataset list" where
  "TrendLine datasets =
     map (\<lambda>d. \<lparr>label = label d,
               data = map trendPoint (case data d of None \<Rightarrow> [] | Some vs \<Rightarrow> vs)\<rparr>) datasets"

text \<open>\<^verbatim>\<open>(d.data || []).map(v => Number(v || 0))\<close>\<close>

definition barPoint :: "jsval \<Rightarrow> jsnum" where
  "barPoint v = Number (if falsy v then JNumber (Num 0) else v)"

definition StackedBar :: "jsval list option dataset list \<Rightarrow> jsnum list dataset list" where
  "StackedBar datasets =
     map (\<lambda>d. \<lparr>label = label d,
               data = map barPoint (case data d of None \<Rightarrow> [] | Some vs \<Rightarrow> vs)\<rparr>) datasets"

text \<open>
  The entries for which the components are meant: absent (\<^verbatim>\<open>undefined\<close>, \<^verbatim>\<open>null\<close>),
  empty (\<^verbatim>\<open>''\<close>) or a number other than \<^verbatim>\<open>NaN\<close>.
\<close>

definition absent_or_number :: "jsval \<Rightarrow> bool" where
  "absent_or_number v =
     (case v of JUndefined \<Rightarrow> True | JNull \<Rightarrow> True | JEmptyString \<Rightarrow> True
      | JNumber n \<Rightarrow> n \<noteq> NaN | _ \<Rightarrow> False)"

section \<open>Properties\<close>

subsection \<open>Folds and sets\<close>

lemma reduce_add_sum_list: "reduce_add xs = sum_list xs"
proof -
  have "foldl (\<lambda>a b. a + b) a xs = a + sum_list xs" for a :: "'a::monoid_add"
    by (induction xs arbitrary: a) (simp_all add: add.assoc)
  then show ?thesis by (simp add: reduce_add_def)
qed

lemma new_Set_foldl:
  "distinct acc \<Longrightarrow>
     distinct (foldl (\<lambda>acc x. if x \<in> set acc then acc else acc @ [x]) acc xs)
     \<and> set (foldl (\<lambda>acc x. if x \<in> set acc then acc else acc @ [x]) acc xs) = set acc \<union> set xs"
  by (induction xs arbitrary: acc) auto

lemma distinct_new_Set: "distinct (new_Set xs)"
  using new_Set_foldl [of "[]" xs] by (simp add: new_Set_def)

lemma set_new_Set: "set (new_Set xs) = set xs"
  using new_Set_foldl [of "[]" xs] by (simp add: new_Set_def)

lemma sorted_distinct_split:
  fixes ys :: "'a::linorder list"
  assumes "sorted ys" and "distinct ys" and "a \<in> set (take k ys)" and "b \<in> set (drop k ys)"
  shows "a < b"
proof -
  have "sorted_wrt (<) (take k ys @ drop k ys)"
    using assms(1,2) by (simp add: strict_sorted_iff)
  then show ?thesis
    using assms(3,4) unfolding sorted_wrt_append by blast
qed

subsection \<open>Rounding to a double is monotone\<close>

lemma powi2_Suc: "(2::real) powi (e + 1) = 2 * 2 powi e"
  by (simp add: power_int_add)

lemma powi2_pred: "(2::real) powi (e - 1) = 2 powi e / 2"
  by (simp add: power_int_diff)

lemma expo_bounds: "0 < x \<Longrightarrow> 2 powi (expo x) \<le> x \<and> x < 2 powi (expo x + 1)"
proof (induction x rule: expo.induct)
  case (1 x)
  show ?case
  proof (cases "2 \<le> x")
    case True
    define e where "e = expo (x / 2)"
    have ex: "expo x = e + 1" using True 1(3) by (simp add: expo.simps [of x] e_def)
    have ih: "2 powi e \<le> x / 2 \<and> x / 2 < 2 powi (e + 1)"
      using 1(1) 1(3) True by (simp add: e_def)
    have "(2::real) powi (e + 1) = 2 * 2 powi e" "(2::real) powi (e + 1 + 1) = 2 * 2 powi (e + 1)"
      by (rule powi2_Suc)+
    then show ?thesis unfolding ex using ih by linarith
  next
    case False
    show ?thesis
    proof (cases "x < 1")
      case True
      define e where "e = expo (2 * x)"
      have ex: "expo x = e - 1" using True False 1(3) by (simp add: expo.simps [of x] e_def)
      have ih: "2 powi e \<le> 2 * x \<and> 2 * x < 2 powi (e + 1)"
        using 1(2) 1(3) True False by (simp add: e_def)
      have "(2::real) powi (e - 1) = 2 powi e / 2" by (rule powi2_pred)
      moreover have "(2::real) powi (e + 1) = 2 * 2 powi e" by (rule powi2_Suc)
      moreover have "e - 1 + 1 = e" by simp
      ultimately show ?thesis unfolding ex using ih by simp
    next
      case ge: False
      then have "expo x = 0" using 1(3) False by (simp add: expo.simps [of x])
      then show ?thesis using ge False by simp
    qed
  qed
qed

lemma expo_mono: assumes "0 < x" "x \<le> y" shows "expo x \<le> expo y"
proof (rule ccontr)
  assume "\<not> expo x \<le> expo y"
  then have "expo y + 1 \<le> expo x" by simp
  then have "(2::real) powi (expo y + 1) \<le> 2 powi (expo x)"
    by (intro power_int_increasing) simp_all
  moreover have "2 powi (expo x) \<le> x" using expo_bounds [OF assms(1)] by simp
  moreover have "y < 2 powi (expo y + 1)" using expo_bounds [of y] assms by simp
  ultimately show False using assms(2) by linarith
qed

lemma rne_of_int: "rne (of_int n) = n"
  by (simp add: rne_def)

lemma rne_mono: "x \<le> y \<Longrightarrow> rne x \<le> rne y"
proof -
  assume xy: "x \<le> y"
  have fl: "\<lfloor>x\<rfloor> \<le> \<lfloor>y\<rfloor>" using xy by (rule floor_mono)
  show ?thesis
  proof (cases "\<lfloor>x\<rfloor> = \<lfloor>y\<rfloor>")
    case True
    then have "x - of_int \<lfloor>x\<rfloor> \<le> y - of_int \<lfloor>y\<rfloor>" using xy by simp
    then show ?thesis using True by (auto simp: rne_def Let_def)
  next
    case False
    then have "\<lfloor>x\<rfloor> + 1 \<le> \<lfloor>y\<rfloor>" using fl by simp
    moreover have "rne x \<le> \<lfloor>x\<rfloor> + 1" by (simp add: rne_def Let_def)
    moreover have "\<lfloor>y\<rfloor> \<le> rne y" by (simp add: rne_def Let_def)
    ultimately show ?thesis by linarith
  qed
qed

lemma rne_nonneg: "0 \<le> y \<Longrightarrow> 0 \<le> rne y"
  using rne_mono [of 0 y] by (simp add: rne_def)

lemma dbl_pos_eq:
  "0 < x \<Longrightarrow> dbl x = of_int (rne (x / 2 powi (max (- 1022) (expo x) - 52)))
                        * 2 powi (max (- 1022) (expo x) - 52)"
  by (simp add: dbl_def Let_def)

lemma dbl_nonneg: assumes "0 \<le> x" shows "0 \<le> dbl x"
proof (cases "x = 0")
  case True
  then show ?thesis by (simp add: dbl_def)
next
  case False
  then have x: "0 < x" using assms by simp
  have "0 \<le> x / 2 powi (max (- 1022) (expo x) - 52)" using x by simp
  then have "0 \<le> rne (x / 2 powi (max (- 1022) (expo x) - 52))" by (rule rne_nonneg)
  then show ?thesis unfolding dbl_pos_eq [OF x] by simp
qed

lemma quantum_53: "2 powi (E - 52) * 9007199254740992 = (2::real) powi (E + 1)"
  using power_int_add [of "2::real" "E - 52" 53] by (simp add: add.commute)

lemma quantum_52: "2 powi (E - 52) * 4503599627370496 = (2::real) powi E"
  using power_int_add [of "2::real" "E - 52" 52] by simp

lemma dbl_upper:
  assumes "0 < x" shows "dbl x \<le> 2 powi (max (- 1022) (expo x) + 1)"
proof -
  define E where "E = max (- 1022) (expo x)"
  define q :: real where "q = 2 powi (E - 52)"
  have q: "0 < q" by (simp add: q_def)
  have "x < 2 powi (expo x + 1)" using expo_bounds [OF assms] by simp
  also have "\<dots> \<le> 2 powi (E + 1)" by (rule power_int_increasing) (simp_all add: E_def)
  also have "\<dots> = q * 9007199254740992" by (simp only: q_def quantum_53)
  finally have "x / q \<le> of_int 9007199254740992" using q by (simp add: field_simps)
  then have "rne (x / q) \<le> rne (of_int 9007199254740992)" by (rule rne_mono)
  then have "rne (x / q) \<le> 9007199254740992" by (simp only: rne_of_int)
  then have "real_of_int (rne (x / q)) \<le> 9007199254740992" by linarith
  then have "of_int (rne (x / q)) * q \<le> 9007199254740992 * q"
    using q by (intro mult_right_mono) simp_all
  also have "9007199254740992 * q = 2 powi (E + 1)"
    using quantum_53 [of E] by (simp add: q_def mult.commute)
  finally show ?thesis unfolding dbl_pos_eq [OF assms] E_def q_def .
qed

lemma dbl_lower:
  assumes "0 < x" "- 1022 < expo x" shows "2 powi (expo x) \<le> dbl x"
proof -
  define E where "E = expo x"
  have m: "max (- 1022) (expo x) = E" using assms(2) by (simp add: E_def)
  define q :: real where "q = 2 powi (E - 52)"
  have q: "0 < q" by (simp add: q_def)
  have qE: "q * 4503599627370496 = 2 powi E" by (simp only: q_def quantum_52)
  have "2 powi E \<le> x" using expo_bounds [OF assms(1)] by (simp add: E_def)
  then have "q * 4503599627370496 \<le> x" by (simp only: qE)
  then have "of_int 4503599627370496 \<le> x / q" using q by (simp add: field_simps)
  then have "rne (of_int 4503599627370496) \<le> rne (x / q)" by (rule rne_mono)
  then have "4503599627370496 \<le> rne (x / q)" by (simp only: rne_of_int)
  then have "4503599627370496 \<le> real_of_int (rne (x / q))" by linarith
  then have "4503599627370496 * q \<le> of_int (rne (x / q)) * q"
    using q by (intro mult_right_mono) simp_all
  then have "2 powi E \<le> of_int (rne (x / q)) * q" using qE by (simp add: mult.commute)
  then show ?thesis unfolding dbl_pos_eq [OF assms(1)] m unfolding q_def E_def .
qed

lemma dbl_mono_nonneg: assumes "0 \<le> x" "x \<le> y" shows "dbl x \<le> dbl y"
proof (cases "x = 0")
  case True
  then show ?thesis using dbl_nonneg [of y] assms by (simp add: dbl_def)
next
  case False
  then have x: "0 < x" and y: "0 < y" using assms by simp_all
  define Ex where "Ex = max (- 1022) (expo x)"
  define Ey where "Ey = max (- 1022) (expo y)"
  have le: "Ex \<le> Ey" using expo_mono [OF x assms(2)] by (simp add: Ex_def Ey_def)
  show ?thesis
  proof (cases "Ex = Ey")
    case True
    define q :: real where "q = 2 powi (Ex - 52)"
    have q: "0 < q" by (simp add: q_def)
    have "x / q \<le> y / q" using assms(2) q by (simp add: divide_right_mono)
    then have "rne (x / q) \<le> rne (y / q)" by (rule rne_mono)
    then have "of_int (rne (x / q)) * q \<le> of_int (rne (y / q)) * q"
      using q by (intro mult_right_mono) simp_all
    then show ?thesis
      unfolding dbl_pos_eq [OF x] dbl_pos_eq [OF y] using True by (simp add: q_def Ex_def Ey_def)
  next
    case False
    then have lt: "Ex < Ey" using le by simp
    then have ey: "- 1022 < expo y" "Ey = expo y" by (auto simp: Ex_def Ey_def)
    have "dbl x \<le> 2 powi (Ex + 1)" using dbl_upper [OF x] by (simp add: Ex_def)
    also have "\<dots> \<le> 2 powi Ey" using lt by (intro power_int_increasing) simp_all
    also have "\<dots> \<le> dbl y" using dbl_lower [OF y ey(1)] by (simp add: ey(2))
    finally show ?thesis .
  qed
qed

subsection \<open>The doubles of the literals\<close>

lemmas fp_eval = fadd_def fsub_def fmul_def fdiv_def num_def or0_def reduce_fadd_def
  dbl_def expo.simps rne_def Let_def

lemma dbl_0: "dbl 0 = 0"
  by (simp add: dbl_def)

lemma dbl_1: "dbl 1 = 1"
  by (simp add: dbl_def expo.simps rne_def Let_def)

lemma dbl_half: "dbl (1 / 2) = 1 / 2"
  by (simp add: dbl_def expo.simps rne_def Let_def)

lemma dbl_100: "dbl 100 = 100"
  by (simp add: dbl_def expo.simps rne_def Let_def)

subsection \<open>Whole numbers are doubles\<close>

lemma expo_nonneg: assumes "1 \<le> x" shows "0 \<le> expo x"
proof (rule ccontr)
  assume "\<not> 0 \<le> expo x"
  then have "expo x + 1 \<le> 0" by simp
  then have "(2::real) powi (expo x + 1) \<le> 2 powi 0" by (intro power_int_increasing) simp_all
  moreover have "x < 2 powi (expo x + 1)" using expo_bounds [of x] assms by simp
  ultimately show False using assms by simp
qed

lemma dbl_of_nat: assumes "n \<le> 2 ^ 53" shows "dbl (real n) = real n"
proof (cases "n = 0")
  case True
  then show ?thesis by (simp add: dbl_def)
next
  case False
  define x where "x = real n"
  have x: "0 < x" "1 \<le> x" using False by (simp_all add: x_def)
  have "real n \<le> real (2 ^ 53)" using assms by (simp only: of_nat_le_iff)
  then have xle: "x \<le> 9007199254740992" by (simp add: x_def)
  define e where "e = expo x"
  have e0: "0 \<le> e" using expo_nonneg [OF x(2)] by (simp add: e_def)
  have lo: "2 powi e \<le> x" using expo_bounds [OF x(1)] by (simp add: e_def)
  have m: "max (- 1022) (expo x) = e" using e0 by (simp add: e_def)
  define q :: real where "q = 2 powi (e - 52)"
  have q: "0 < q" by (simp add: q_def)
  have "\<exists>k::int. x / q = of_int k"
  proof (cases "e \<le> 52")
    case True
    have "1 / q = 2 powi (52 - e)" by (simp add: q_def power_int_diff)
    also have "\<dots> = 2 ^ nat (52 - e)" using True by (simp add: power_int_def)
    finally have inv: "1 / q = 2 ^ nat (52 - e)" .
    have "x / q = x * (1 / q)" by simp
    also have "\<dots> = real n * 2 ^ nat (52 - e)" by (simp only: inv x_def)
    also have "\<dots> = of_int (int n * 2 ^ nat (52 - e))" by simp
    finally show ?thesis by blast
  next
    case False
    then have "53 \<le> e" by simp
    then have "(2::real) powi 53 \<le> 2 powi e" by (intro power_int_increasing) simp_all
    then have "x = 9007199254740992" using lo xle by simp
    moreover have "e \<le> 53"
    proof (rule ccontr)
      assume "\<not> e \<le> 53"
      then have "54 \<le> e" by simp
      then have "(2::real) powi 54 \<le> 2 powi e" by (intro power_int_increasing) simp_all
      then show False using lo xle by simp
    qed
    ultimately have "e = 53" "x = 9007199254740992" using \<open>53 \<le> e\<close> by simp_all
    then have "x / q = of_int 4503599627370496" by (simp add: q_def)
    then show ?thesis by blast
  qed
  then obtain k :: int where k: "x / q = of_int k" by blast
  have "dbl x = of_int (rne (x / q)) * q"
    using dbl_pos_eq [OF x(1)] by (simp only: m q_def)
  also have "\<dots> = of_int k * q" by (simp only: k rne_of_int)
  also have "\<dots> = x" using k q by (simp add: field_simps)
  finally show ?thesis by (simp add: x_def)
qed

subsection \<open>Date alignment\<close>

text \<open>
  C7. The aligned dates are duplicate-free, ascending and at most 7; they are dates of
  the input, every input date left out is earlier than every date kept, and when the
  input has at most 7 distinct dates all of them are kept. No segments, no dates.
\<close>

theorem sleepDates_aligned:
  "distinct (sleepDates rows) \<and> sorted (sleepDates rows) \<and> length (sleepDates rows) \<le> 7
   \<and> length (sleepDates rows) = min 7 (card (date ` set rows))
   \<and> set (sleepDates rows) \<subseteq> date ` set rows
   \<and> (\<forall>d \<in> date ` set rows - set (sleepDates rows). \<forall>e \<in> set (sleepDates rows). d < e)
   \<and> (card (date ` set rows) \<le> 7 \<longrightarrow> set (sleepDates rows) = date ` set rows)
   \<and> sleepDates [] = []"
proof -
  define uniq where "uniq = sort (new_Set (map date rows))"
  define k where "k = length uniq - 7"
  have sd: "sleepDates rows = drop k uniq"
    by (simp add: sleepDates_def slice_last_def uniq_def k_def)
  have du: "distinct uniq" and su: "sorted uniq" and setu: "set uniq = date ` set rows"
    by (simp_all add: uniq_def distinct_new_Set set_new_Set)
  have lenu: "length uniq = card (date ` set rows)"
    using du setu by (metis distinct_card)
  have 1: "distinct (sleepDates rows)" using du by (simp add: sd)
  have 2: "sorted (sleepDates rows)" using su by (simp add: sd sorted_wrt_drop)
  have 4: "length (sleepDates rows) = min 7 (card (date ` set rows))"
    using lenu by (simp add: sd k_def)
  have 3: "length (sleepDates rows) \<le> 7" using 4 by simp
  have 5: "set (sleepDates rows) \<subseteq> date ` set rows"
    using setu set_drop_subset [of k uniq] by (simp add: sd)
  have 6: "\<forall>d \<in> date ` set rows - set (sleepDates rows). \<forall>e \<in> set (sleepDates rows). d < e"
  proof (intro ballI)
    fix d e
    assume d: "d \<in> date ` set rows - set (sleepDates rows)" and e: "e \<in> set (sleepDates rows)"
    have "set uniq = set (take k uniq) \<union> set (drop k uniq)"
      by (metis append_take_drop_id set_append)
    with d have "d \<in> set (take k uniq)" by (auto simp: sd setu)
    then show "d < e"
      using e su du by (auto simp: sd intro: sorted_distinct_split)
  qed
  have 7: "card (date ` set rows) \<le> 7 \<longrightarrow> set (sleepDates rows) = date ` set rows"
    using lenu setu by (simp add: sd k_def)
  have 8: "sleepDates [] = []"
    by (simp add: sleepDates_def slice_last_def new_Set_def)
  show ?thesis using 1 2 3 4 5 6 7 8 by blast
qed

text \<open>
  Ten segments on nine distinct dates: the two earliest dates are dropped. Three
  segments on two dates: both dates are kept.
\<close>

theorem sleepDates_aligned_witness:
  "sleepDates (map (\<lambda>d. \<lparr>date = d, stage = ''Awake'', mins = None\<rparr>)
      [''09'', ''03'', ''01'', ''05'', ''03'', ''08'', ''02'', ''07'', ''04'', ''06''])
     = [''03'', ''04'', ''05'', ''06'', ''07'', ''08'', ''09'']
   \<and> ''01'' < ''03'' \<and> ''02'' < ''03''
   \<and> card (date ` set [\<lparr>date = ''b'', stage = ''Awake'', mins = None\<rparr>,
                        \<lparr>date = ''a'', stage = ''REM sleep'', mins = Some 5\<rparr>,
                        \<lparr>date = ''b'', stage = ''Deep sleep'', mins = Some 7\<rparr>]) \<le> 7
   \<and> sleepDates [\<lparr>date = ''b'', stage = ''Awake'', mins = None\<rparr>,
                 \<lparr>date = ''a'', stage = ''REM sleep'', mins = Some 5\<rparr>,
                 \<lparr>date = ''b'', stage = ''Deep sleep'', mins = Some 7\<rparr>] = [''a'', ''b'']"
proof -
  let ?many = "map (\<lambda>d. \<lparr>date = d, stage = ''Awake'', mins = None\<rparr>)
      [''09'', ''03'', ''01'', ''05'', ''03'', ''08'', ''02'', ''07'', ''04'', ''06'']"
  let ?few = "[\<lparr>date = ''b'', stage = ''Awake'', mins = None\<rparr>,
               \<lparr>date = ''a'', stage = ''REM sleep'', mins = Some 5\<rparr>,
               \<lparr>date = ''b'', stage = ''Deep sleep'', mins = Some 7\<rparr>]"
  have many: "sleepDates ?many = [''03'', ''04'', ''05'', ''06'', ''07'', ''08'', ''09'']"
    by (simp add: sleepDates_def slice_last_def new_Set_def)
  have few: "sleepDates ?few = [''a'', ''b'']"
    by (simp add: sleepDates_def slice_last_def new_Set_def)
  have "date ` set ?few = {''a'', ''b''}" by auto
  then have c: "card (date ` set ?few) \<le> 7" by simp
  have lt: "''01'' < ''03'' \<and> ''02'' < ''03''" by simp
  show ?thesis
    using many few c lt sleepDates_aligned [of ?many] sleepDates_aligned [of ?few] by blast
qed

subsection \<open>Stage aggregation\<close>

lemma stageMinutes_add_row:
  "stageMinutes (add_row m r) d s =
     (if date r = d \<and> stage r = s then fadd (stageMinutes m d s) (num (mins r))
      else stageMinutes m d s)"
  by (auto simp: stageMinutes_def add_row_def Let_def or0_def split: option.splits)

lemma stageMinutes_foldl:
  "stageMinutes (foldl add_row m rows) d s =
     foldl fadd (stageMinutes m d s)
       (map (\<lambda>r. num (mins r)) (filter (\<lambda>r. date r = d \<and> stage r = s) rows))"
  by (induction rows arbitrary: m) (simp_all add: stageMinutes_add_row)

lemma stageMinutes_sleepByDate:
  "stageMinutes (sleepByDate rows) d s =
     reduce_fadd (map (\<lambda>r. num (mins r)) (filter (\<lambda>r. date r = d \<and> stage r = s) rows))"
  by (simp add: sleepByDate_def stageMinutes_foldl reduce_fadd_def) (simp add: stageMinutes_def)

lemma totalSleepMinutes_stages:
  "totalSleepMinutes m d =
     fadd (fadd (fadd 0 (stageMinutes m d ''Light sleep'')) (stageMinutes m d ''Deep sleep''))
       (stageMinutes m d ''REM sleep'')"
  by (simp add: totalSleepMinutes_def sleepStages_def)

lemma sleepMin_last:
  "sleepMin rows =
     (if truthy (lastDate (sleepDates rows))
      then totalSleepMinutes (sleepByDate rows) (last (sleepDates rows)) else 0)"
  by (auto simp: sleepMin_def Let_def lastDate_def truthy_def)

lemma stage_filter_awake:
  assumes "s \<in> set sleepStages"
  shows "filter (\<lambda>r. date r = d \<and> stage r = s)
           (filter (\<lambda>r. stage r \<noteq> ''Awake'' \<and> stage r \<noteq> ''Out-of-bed'') rows) =
         filter (\<lambda>r. date r = d \<and> stage r = s) rows"
  using assms by (auto simp: sleepStages_def intro: filter_cong)

lemma totalSleepMinutes_drop_awake:
  "totalSleepMinutes
     (sleepByDate (filter (\<lambda>r. stage r \<noteq> ''Awake'' \<and> stage r \<noteq> ''Out-of-bed'') rows)) d =
   totalSleepMinutes (sleepByDate rows) d"
proof -
  have "stageMinutes
          (sleepByDate (filter (\<lambda>r. stage r \<noteq> ''Awake'' \<and> stage r \<noteq> ''Out-of-bed'') rows)) d s =
        stageMinutes (sleepByDate rows) d s" if "s \<in> set sleepStages" for s
    by (simp only: stageMinutes_sleepByDate stage_filter_awake [OF that])
  then show ?thesis by (simp add: totalSleepMinutes_stages sleepStages_def)
qed

lemma sleepDates_cong: "map date rows' = map date rows \<Longrightarrow> sleepDates rows' = sleepDates rows"
  by (simp add: sleepDates_def)

lemma stage_list_remins:
  assumes "s \<in> set sleepStages"
  shows "map (\<lambda>r. num (mins r)) (filter (\<lambda>r. date r = d \<and> stage r = s)
           (map (\<lambda>r. if stage r \<in> set sleepStages then r else r\<lparr>mins := f r\<rparr>) rows))
         = map (\<lambda>r. num (mins r)) (filter (\<lambda>r. date r = d \<and> stage r = s) rows)"
  using assms by (induction rows) auto

lemma sleepMin_remins:
  "sleepMin (map (\<lambda>r. if stage r \<in> set sleepStages then r else r\<lparr>mins := f r\<rparr>) rows)
   = sleepMin rows"
proof -
  let ?g = "\<lambda>r. if stage r \<in> set sleepStages then r else r\<lparr>mins := f r\<rparr>"
  have "map date (map ?g rows) = map date rows" by (induction rows) auto
  then have sd: "sleepDates (map ?g rows) = sleepDates rows" by (rule sleepDates_cong)
  have "stageMinutes (sleepByDate (map ?g rows)) d s = stageMinutes (sleepByDate rows) d s"
    if "s \<in> set sleepStages" for s d
    by (simp only: stageMinutes_sleepByDate stage_list_remins [OF that])
  then have "totalSleepMinutes (sleepByDate (map ?g rows)) d
             = totalSleepMinutes (sleepByDate rows) d" for d
    by (simp add: totalSleepMinutes_stages sleepStages_def)
  then show ?thesis by (simp only: sleepMin_last sd)
qed

subsection \<open>Whole minutes add up exactly\<close>

lemma foldl_fadd_nat:
  assumes "\<forall>x\<in>set xs. x \<in> \<nat>" and "real a + sum_list xs \<le> 2 ^ 53"
  shows "foldl fadd (real a) xs = real a + sum_list xs"
  using assms
proof (induction xs arbitrary: a)
  case Nil
  then show ?case by simp
next
  case (Cons x xs)
  then obtain k where k: "x = real k" by (auto simp: Nats_def)
  have nn: "0 \<le> sum_list xs" using Cons.prems(1) by (intro sum_list_nonneg) (auto simp: Nats_def)
  have "real (a + k) \<le> 2 ^ 53" using Cons.prems(2) nn by (simp add: k)
  then have "a + k \<le> 2 ^ 53"
    by (metis of_nat_le_iff of_nat_numeral of_nat_power)
  then have "fadd (real a) x = real (a + k)"
    unfolding fadd_def k using dbl_of_nat [of "a + k"] by simp
  moreover have "foldl fadd (real (a + k)) xs = real (a + k) + sum_list xs"
    using Cons.prems by (intro Cons.IH) (simp_all add: k)
  ultimately show ?case by (simp add: k)
qed

lemma reduce_fadd_nat:
  assumes "\<forall>x\<in>set xs. x \<in> \<nat>" and "sum_list xs \<le> 2 ^ 53"
  shows "reduce_fadd xs = sum_list xs"
  using foldl_fadd_nat [of xs 0] assms by (simp add: reduce_fadd_def)

lemma sum_filter_le:
  fixes f :: "'a \<Rightarrow> real"
  assumes "\<forall>x\<in>set xs. 0 \<le> f x"
  shows "(\<Sum>x\<leftarrow>filter P xs. f x) \<le> (\<Sum>x\<leftarrow>xs. f x)"
  using assms by (induction xs) (auto intro: order_trans)

lemma elem_le_sum:
  fixes f :: "'a \<Rightarrow> real"
  assumes "\<forall>x\<in>set xs. 0 \<le> f x" and "x \<in> set xs"
  shows "f x \<le> (\<Sum>x\<leftarrow>xs. f x)"
  using assms
proof (induction xs)
  case Nil
  then show ?case by simp
next
  case (Cons y ys)
  have "0 \<le> (\<Sum>x\<leftarrow>ys. f x)" using Cons.prems(1) by (intro sum_list_nonneg) auto
  then show ?case using Cons by auto
qed

lemma num_nat: assumes "or0 v \<in> \<nat>" and "or0 v \<le> 2 ^ 53" shows "num v = or0 v"
proof -
  obtain k where k: "or0 v = real k" using assms(1) by (auto simp: Nats_def)
  then have "real k \<le> 2 ^ 53" using assms(2) by simp
  then have "k \<le> 2 ^ 53" by (metis of_nat_le_iff of_nat_numeral of_nat_power)
  then show ?thesis unfolding num_def k by (rule dbl_of_nat)
qed

lemma stage_sum_exact:
  assumes nat: "\<forall>r\<in>set rows. or0 (mins r) \<in> \<nat>"
    and le: "(\<Sum>r\<leftarrow>rows. or0 (mins r)) \<le> 2 ^ 53"
  shows "reduce_fadd (map (\<lambda>r. num (mins r)) (filter P rows)) = (\<Sum>r\<leftarrow>filter P rows. or0 (mins r))"
proof -
  have nn: "\<forall>r\<in>set rows. 0 \<le> or0 (mins r)" using nat by (auto simp: Nats_def)
  have "num (mins r) = or0 (mins r)" if "r \<in> set rows" for r
  proof -
    have "or0 (mins r) \<le> (\<Sum>r\<leftarrow>rows. or0 (mins r))" using nn that by (rule elem_le_sum)
    then show ?thesis using nat that le by (intro num_nat) auto
  qed
  then have eq: "map (\<lambda>r. num (mins r)) (filter P rows) = map (\<lambda>r. or0 (mins r)) (filter P rows)"
    by (intro map_cong) auto
  have "(\<Sum>r\<leftarrow>filter P rows. or0 (mins r)) \<le> 2 ^ 53"
    using sum_filter_le [OF nn, of P] le by linarith
  moreover have "\<forall>x\<in>set (map (\<lambda>r. or0 (mins r)) (filter P rows)). x \<in> \<nat>" using nat by auto
  ultimately show ?thesis unfolding eq by (intro reduce_fadd_nat)
qed

lemma sum_three_stages:
  "(\<Sum>r\<leftarrow>filter (\<lambda>r. date r = d \<and> stage r \<in> set sleepStages) rows. or0 (mins r)) =
     (\<Sum>r\<leftarrow>filter (\<lambda>r. date r = d \<and> stage r = ''Light sleep'') rows. or0 (mins r))
     + (\<Sum>r\<leftarrow>filter (\<lambda>r. date r = d \<and> stage r = ''Deep sleep'') rows. or0 (mins r))
     + (\<Sum>r\<leftarrow>filter (\<lambda>r. date r = d \<and> stage r = ''REM sleep'') rows. or0 (mins r))"
  by (induction rows) (auto simp: sleepStages_def)

lemma whole_minutes_exact:
  assumes nat: "\<forall>r\<in>set rows. or0 (mins r) \<in> \<nat>"
    and le: "(\<Sum>r\<leftarrow>rows. or0 (mins r)) \<le> 2 ^ 53"
  shows "stageMinutes (sleepByDate rows) d s =
           (\<Sum>r\<leftarrow>filter (\<lambda>r. date r = d \<and> stage r = s) rows. or0 (mins r))"
    and "totalSleepMinutes (sleepByDate rows) d =
           (\<Sum>r\<leftarrow>filter (\<lambda>r. date r = d \<and> stage r \<in> set sleepStages) rows. or0 (mins r))"
proof -
  show st: "stageMinutes (sleepByDate rows) d s =
           (\<Sum>r\<leftarrow>filter (\<lambda>r. date r = d \<and> stage r = s) rows. or0 (mins r))" for s
    by (simp only: stageMinutes_sleepByDate stage_sum_exact [OF nat le])
  define L where "L = (\<Sum>r\<leftarrow>filter (\<lambda>r. date r = d \<and> stage r = ''Light sleep'') rows. or0 (mins r))"
  define D where "D = (\<Sum>r\<leftarrow>filter (\<lambda>r. date r = d \<and> stage r = ''Deep sleep'') rows. or0 (mins r))"
  define R where "R = (\<Sum>r\<leftarrow>filter (\<lambda>r. date r = d \<and> stage r = ''REM sleep'') rows. or0 (mins r))"
  have nn: "\<forall>r\<in>set rows. 0 \<le> or0 (mins r)" using nat by (auto simp: Nats_def)
  have in_nat: "(\<Sum>r\<leftarrow>filter P rows. or0 (mins r)) \<in> \<nat>" for P
    using nat by (induction rows) auto
  have three: "(\<Sum>r\<leftarrow>filter (\<lambda>r. date r = d \<and> stage r \<in> set sleepStages) rows. or0 (mins r))
               = L + D + R"
    unfolding L_def D_def R_def by (rule sum_three_stages)
  have "L + D + R \<le> 2 ^ 53"
    using sum_filter_le [OF nn, of "\<lambda>r. date r = d \<and> stage r \<in> set sleepStages"] le
    unfolding three by linarith
  moreover have "\<forall>x\<in>set [L, D, R]. x \<in> \<nat>" by (simp add: L_def D_def R_def in_nat)
  ultimately have "foldl fadd (real 0) [L, D, R] = real 0 + sum_list [L, D, R]"
    by (intro foldl_fadd_nat) simp_all
  then have "fadd (fadd (fadd 0 L) D) R = L + D + R" by simp
  then show "totalSleepMinutes (sleepByDate rows) d =
           (\<Sum>r\<leftarrow>filter (\<lambda>r. date r = d \<and> stage r \<in> set sleepStages) rows. or0 (mins r))"
    unfolding three totalSleepMinutes_stages st L_def D_def R_def .
qed

text \<open>
  C4, as the code has it. For a segment list, a date and a stage none of which uses an
  inherited property name: the stored total is the sum of the minutes of the segments
  with that date and stage, added in segment order in double precision (missing minutes
  count 0, and so does a missing bucket); the total sleep of a date is the Light + Deep +
  REM total; dropping the Awake and Out-of-bed segments changes no date's total. When
  all minutes are whole numbers (and add up to at most \<open>2\<^sup>5\<^sup>3\<close>) the sums are exact. The
  sleep minutes of the readiness score and the headline KPI are the total of the last
  aligned date (0 and the placeholder when there is none or it is the empty string),
  and they do not change when the minutes of segments in any other stage are replaced.
  The last aligned date itself is the latest date of any segment, whatever its stage.
\<close>

theorem sleep_totals:
  assumes "plain_rows rows" and "plain_key d" and "plain_key s"
  shows
  "stageMinutes (sleepByDate rows) d s =
     reduce_fadd (map (\<lambda>r. num (mins r)) (filter (\<lambda>r. date r = d \<and> stage r = s) rows))
   \<and> stageMinutes (sleepByDate []) d s = 0
   \<and> totalSleepMinutes (sleepByDate rows) d =
       fadd (fadd (fadd 0 (stageMinutes (sleepByDate rows) d ''Light sleep''))
                  (stageMinutes (sleepByDate rows) d ''Deep sleep''))
            (stageMinutes (sleepByDate rows) d ''REM sleep'')
   \<and> totalSleepMinutes
         (sleepByDate (filter (\<lambda>r. stage r \<noteq> ''Awake'' \<and> stage r \<noteq> ''Out-of-bed'') rows)) d =
       totalSleepMinutes (sleepByDate rows) d
   \<and> ((\<forall>r\<in>set rows. or0 (mins r) \<in> \<nat>) \<and> (\<Sum>r\<leftarrow>rows. or0 (mins r)) \<le> 2 ^ 53 \<longrightarrow>
        stageMinutes (sleepByDate rows) d s =
          (\<Sum>r\<leftarrow>filter (\<lambda>r. date r = d \<and> stage r = s) rows. or0 (mins r))
        \<and> totalSleepMinutes (sleepByDate rows) d =
          (\<Sum>r\<leftarrow>filter (\<lambda>r. date r = d \<and> stage r \<in> set sleepStages) rows. or0 (mins r)))
   \<and> sleepMin rows =
       (if truthy (lastDate (sleepDates rows))
        then totalSleepMinutes (sleepByDate rows) (last (sleepDates rows)) else 0)
   \<and> sleepMin (map (\<lambda>r. if stage r \<in> set sleepStages then r else r\<lparr>mins := f r\<rparr>) rows) =
       sleepMin rows
   \<and> kpiSleepMin \<lparr>sleepRows = rows, hr7 = h, hrIntra = i, steps7 = t, cal7 = c\<rparr> =
       (if truthy (lastDate (sleepDates rows))
        then Some (round (totalSleepMinutes (sleepByDate rows) (last (sleepDates rows))))
        else None)"
proof -
  have emp: "stageMinutes (sleepByDate []) d s = 0"
    by (simp add: stageMinutes_sleepByDate reduce_fadd_def)
  have kpi: "kpiSleepMin \<lparr>sleepRows = rows, hr7 = h, hrIntra = i, steps7 = t, cal7 = c\<rparr> =
       (if truthy (lastDate (sleepDates rows))
        then Some (round (totalSleepMinutes (sleepByDate rows) (last (sleepDates rows))))
        else None)"
    by (auto simp: kpiSleepMin_def Let_def lastDate_def truthy_def)
  show ?thesis
    using stageMinutes_sleepByDate [of rows d s] emp
      totalSleepMinutes_stages [of "sleepByDate rows" d] totalSleepMinutes_drop_awake [of rows d]
      whole_minutes_exact(1) [of rows d s] whole_minutes_exact(2) [of rows d]
      sleepMin_last [of rows] sleepMin_remins [of f rows] kpi
    by blast
qed

text \<open>
  The night of 250 + 92 + 95 minutes of sleep and 14 minutes awake; and a night of
  240.2 + 90.1 + 94.2 minutes, whose double-precision total is just below 424.5, so that
  the headline shows 424.
\<close>

theorem sleep_totals_witness:
  "plain_rows
      [\<lparr>date = ''2024-05-01'', stage = ''Light sleep'', mins = Some 200\<rparr>,
       \<lparr>date = ''2024-05-02'', stage = ''Light sleep'', mins = Some 250\<rparr>,
       \<lparr>date = ''2024-05-02'', stage = ''Awake'', mins = Some 14\<rparr>,
       \<lparr>date = ''2024-05-02'', stage = ''Deep sleep'', mins = Some 92\<rparr>,
       \<lparr>date = ''2024-05-02'', stage = ''REM sleep'', mins = Some 95\<rparr>,
       \<lparr>date = ''2024-05-02'', stage = ''Light sleep'', mins = None\<rparr>]
   \<and> plain_key ''2024-05-02'' \<and> plain_key ''Awake''
   \<and> stageMinutes (sleepByDate
      [\<lparr>date = ''2024-05-01'', stage = ''Light sleep'', mins = Some 200\<rparr>,
       \<lparr>date = ''2024-05-02'', stage = ''Light sleep'', mins = Some 250\<rparr>,
       \<lparr>date = ''2024-05-02'', stage = ''Awake'', mins = Some 14\<rparr>,
       \<lparr>date = ''2024-05-02'', stage = ''Deep sleep'', mins = Some 92\<rparr>,
       \<lparr>date = ''2024-05-02'', stage = ''REM sleep'', mins = Some 95\<rparr>,
       \<lparr>date = ''2024-05-02'', stage = ''Light sleep'', mins = None\<rparr>]) ''2024-05-02'' ''Awake'' = 14
   \<and> totalSleepMinutes (sleepByDate
      [\<lparr>date = ''2024-05-01'', stage = ''Light sleep'', mins = Some 200\<rparr>,
       \<lparr>date = ''2024-05-02'', stage = ''Light sleep'', mins = Some 250\<rparr>,
       \<lparr>date = ''2024-05-02'', stage = ''Awake'', mins = Some 14\<rparr>,
       \<lparr>date = ''2024-05-02'', stage = ''Deep sleep'', mins = Some 92\<rparr>,
       \<lparr>date = ''2024-05-02'', stage = ''REM sleep'', mins = Some 95\<rparr>,
       \<lparr>date = ''2024-05-02'', stage = ''Light sleep'', mins = None\<rparr>]) ''2024-05-02'' = 437
   \<and> plain_rows
      [\<lparr>date = ''2024-05-02'', stage = ''Light sleep'', mins = Some 240.2\<rparr>,
       \<lparr>date = ''2024-05-02'', stage = ''Deep sleep'', mins = Some 90.1\<rparr>,
       \<lparr>date = ''2024-05-02'', stage = ''REM sleep'', mins = Some 94.2\<rparr>]
   \<and> totalSleepMinutes (sleepByDate
      [\<lparr>date = ''2024-05-02'', stage = ''Light sleep'', mins = Some 240.2\<rparr>,
       \<lparr>date = ''2024-05-02'', stage = ''Deep sleep'', mins = Some 90.1\<rparr>,
       \<lparr>date = ''2024-05-02'', stage = ''REM sleep'', mins = Some 94.2\<rparr>]) ''2024-05-02''
       = 7467882975854591 / 17592186044416
   \<and> kpiSleepMin
      \<lparr>sleepRows =
        [\<lparr>date = ''2024-05-02'', stage = ''Light sleep'', mins = Some 240.2\<rparr>,
         \<lparr>date = ''2024-05-02'', stage = ''Deep sleep'', mins = Some 90.1\<rparr>,
         \<lparr>date = ''2024-05-02'', stage = ''REM sleep'', mins = Some 94.2\<rparr>],
       hr7 = [], hrIntra = [], steps7 = [], cal7 = []\<rparr> = Some 424"
proof -
  let ?rows = "[\<lparr>date = ''2024-05-01'', stage = ''Light sleep'', mins = Some 200\<rparr>,
       \<lparr>date = ''2024-05-02'', stage = ''Light sleep'', mins = Some 250\<rparr>,
       \<lparr>date = ''2024-05-02'', stage = ''Awake'', mins = Some 14\<rparr>,
       \<lparr>date = ''2024-05-02'', stage = ''Deep sleep'', mins = Some 92\<rparr>,
       \<lparr>date = ''2024-05-02'', stage = ''REM sleep'', mins = Some 95\<rparr>,
       \<lparr>date = ''2024-05-02'', stage = ''Light sleep'', mins = None\<rparr>]"
  let ?frac = "[\<lparr>date = ''2024-05-02'', stage = ''Light sleep'', mins = Some 240.2\<rparr>,
       \<lparr>date = ''2024-05-02'', stage = ''Deep sleep'', mins = Some 90.1\<rparr>,
       \<lparr>date = ''2024-05-02'', stage = ''REM sleep'', mins = Some 94.2\<rparr>]"
  have p: "plain_rows ?rows" "plain_key ''2024-05-02''" "plain_key ''Awake''" "plain_rows ?frac"
    by (simp_all add: plain_rows_def plain_key_def inherited_names_def)
  note t = sleep_totals [OF p(1) p(2) p(3), where f = "\<lambda>r. None" and h = "[]" and i = "[]"
      and t = "[]" and c = "[]"]
  note u = sleep_totals [OF p(4) p(2) p(3), where f = "\<lambda>r. None" and h = "[]" and i = "[]"
      and t = "[]" and c = "[]"]
  have nat: "(\<forall>r\<in>set ?rows. or0 (mins r) \<in> \<nat>) \<and> (\<Sum>r\<leftarrow>?rows. or0 (mins r)) \<le> 2 ^ 53"
    by (simp add: or0_def)
  have a: "stageMinutes (sleepByDate ?rows) ''2024-05-02'' ''Awake'' = 14"
    and b: "totalSleepMinutes (sleepByDate ?rows) ''2024-05-02'' = 437"
    using t [THEN conjunct2, THEN conjunct2, THEN conjunct2, THEN conjunct2, THEN conjunct1] nat
    by (simp_all add: sleepStages_def or0_def)
  have sd: "sleepDates ?frac = [''2024-05-02'']"
    by (simp add: sleepDates_def slice_last_def new_Set_def)
  have st: "stageMinutes (sleepByDate ?frac) ''2024-05-02'' ''Light sleep'' = dbl 240.2"
    "stageMinutes (sleepByDate ?frac) ''2024-05-02'' ''Deep sleep'' = dbl 90.1"
    "stageMinutes (sleepByDate ?frac) ''2024-05-02'' ''REM sleep'' = dbl 94.2"
    by (simp_all add: stageMinutes_sleepByDate fp_eval)
  have "totalSleepMinutes (sleepByDate ?frac) ''2024-05-02''
        = fadd (fadd (fadd 0 (dbl 240.2)) (dbl 90.1)) (dbl 94.2)"
    using u [THEN conjunct2, THEN conjunct2, THEN conjunct1] by (simp only: st)
  also have "\<dots> = 7467882975854591 / 17592186044416"
    by (simp add: fp_eval)
  finally have tot: "totalSleepMinutes (sleepByDate ?frac) ''2024-05-02''
        = 7467882975854591 / 17592186044416" .
  have tr: "truthy (lastDate [''2024-05-02''])" "last [''2024-05-02''] = ''2024-05-02''"
    by (simp_all add: lastDate_def truthy_def)
  have "kpiSleepMin \<lparr>sleepRows = ?frac, hr7 = [], hrIntra = [], steps7 = [], cal7 = []\<rparr>
        = Some (round (7467882975854591 / 17592186044416 :: real))"
    using u [THEN conjunct2, THEN conjunct2, THEN conjunct2, THEN conjunct2, THEN conjunct2,
        THEN conjunct2, THEN conjunct2]
    by (simp only: sd tr tot if_True)
  also have "\<dots> = Some 424" by (simp add: round_def)
  finally show ?thesis using p a b tot by blast
qed

text \<open>
  An Awake segment on a later date than the last night of sleep becomes the last aligned
  date: the sleep minutes of the readiness score are 0 with it and 437 without it, and
  the score is 50 with it and 96 without it.
\<close>

theorem sleep_awake_counterexample:
  "plain_rows [\<lparr>date = ''2024-05-02'', stage = ''Light sleep'', mins = Some 437\<rparr>,
               \<lparr>date = ''2024-05-03'', stage = ''Awake'', mins = Some 14\<rparr>]
   \<and> sleepMin [\<lparr>date = ''2024-05-02'', stage = ''Light sleep'', mins = Some 437\<rparr>,
             \<lparr>date = ''2024-05-03'', stage = ''Awake'', mins = Some 14\<rparr>] = 0
   \<and> sleepMin [\<lparr>date = ''2024-05-02'', stage = ''Light sleep'', mins = Some 437\<rparr>] = 437
   \<and> sleepScore_fp 0 = 0
   \<and> sleepScore_fp 437 = 4100152160751889 / 4503599627370496
   \<and> readiness
       \<lparr>sleepRows = [\<lparr>date = ''2024-05-02'', stage = ''Light sleep'', mins = Some 437\<rparr>,
                     \<lparr>date = ''2024-05-03'', stage = ''Awake'', mins = Some 14\<rparr>],
        hr7 = [], hrIntra = [], steps7 = [], cal7 = []\<rparr> = 50
   \<and> readiness
       \<lparr>sleepRows = [\<lparr>date = ''2024-05-02'', stage = ''Light sleep'', mins = Some 437\<rparr>],
        hr7 = [], hrIntra = [], steps7 = [], cal7 = []\<rparr> = 96"
proof -
  let ?both = "[\<lparr>date = ''2024-05-02'', stage = ''Light sleep'', mins = Some 437\<rparr>,
                \<lparr>date = ''2024-05-03'', stage = ''Awake'', mins = Some 14\<rparr>]"
  let ?one = "[\<lparr>date = ''2024-05-02'', stage = ''Light sleep'', mins = Some 437\<rparr>]"
  have sd: "sleepDates ?both = [''2024-05-02'', ''2024-05-03'']"
    "sleepDates ?one = [''2024-05-02'']"
    by (simp_all add: sleepDates_def slice_last_def new_Set_def)
  have t: "totalSleepMinutes (sleepByDate ?both) ''2024-05-03'' = 0"
    "totalSleepMinutes (sleepByDate ?one) ''2024-05-02'' = 437"
    by (simp_all add: totalSleepMinutes_stages stageMinutes_sleepByDate fp_eval)
  have sm: "sleepMin ?both = 0" "sleepMin ?one = 437"
    by (simp_all add: sleepMin_last sd lastDate_def truthy_def t)
  have a: "sleepScore_fp 0 = 0" "sleepScore_fp 437 = 4100152160751889 / 4503599627370496"
    by (simp_all add: sleepScore_fp_def goal_def fp_eval)
  have b0: "hrScore_fp [] = 1"
    by (simp add: hrScore_fp_def yesterday_fp_def weeklyAvg_fp_def hrAvg_fp_def fp_eval)
  have c0: "stepsScore_fp [] = 1"
    by (simp add: stepsScore_fp_def stepsScoreOf_fp_def rel_fp_def sAvg_fp_def stepsVals_fp_def
        fp_eval)
  have v: "round (fmul 100 (fadd (fadd (fmul 0.5 0) (fmul (dbl 0.3) 1)) (fmul (dbl 0.2) 1))) = 50"
    "round (fmul 100 (fadd (fadd (fmul 0.5 (4100152160751889 / 4503599627370496))
        (fmul (dbl 0.3) 1)) (fmul (dbl 0.2) 1))) = 96"
    by (simp_all add: round_def fp_eval)
  have r: "readiness \<lparr>sleepRows = ?both, hr7 = [], hrIntra = [], steps7 = [], cal7 = []\<rparr> = 50"
    "readiness \<lparr>sleepRows = ?one, hr7 = [], hrIntra = [], steps7 = [], cal7 = []\<rparr> = 96"
    unfolding readiness_def by (simp_all only: snapshot.select_convs sm a b0 c0 v)
  have p: "plain_rows ?both"
    by (simp add: plain_rows_def plain_key_def inherited_names_def)
  show ?thesis using p sm a r by blast
qed

subsection \<open>Readiness score\<close>

lemma sleepScore_fp_bounds: "0 \<le> sleepScore_fp m \<and> sleepScore_fp m \<le> 1"
  by (simp add: sleepScore_fp_def)

lemma hrScore_fp_bounds: "0 \<le> hrScore_fp hs \<and> hrScore_fp hs \<le> 1"
  by (simp add: hrScore_fp_def)

lemma dbl_unit: assumes "0 \<le> k" "k \<le> 1" shows "0 \<le> dbl k \<and> dbl k \<le> 1"
  using dbl_nonneg [OF assms(1)] dbl_mono_nonneg [OF assms] by (simp add: dbl_1)

lemma stepsScoreOf_fp_bounds: "0 \<le> stepsScoreOf_fp x \<and> stepsScoreOf_fp x \<le> 1"
  by (simp add: stepsScoreOf_fp_def dbl_unit)

lemma stepsScore_fp_bounds: "0 \<le> stepsScore_fp ss \<and> stepsScore_fp ss \<le> 1"
  by (simp add: stepsScore_fp_def stepsScoreOf_fp_bounds)

lemma fmul_le:
  assumes "0 \<le> k" "0 \<le> a" "a \<le> 1" shows "0 \<le> fmul k a \<and> fmul k a \<le> dbl k"
proof -
  have "0 \<le> k * a" "k * a \<le> k" using assms by (simp_all add: mult_left_le)
  then show ?thesis
    unfolding fmul_def using dbl_nonneg [of "k * a"] dbl_mono_nonneg [of "k * a" k] by simp
qed

lemma fadd_le:
  assumes "0 \<le> a" "a \<le> A" "0 \<le> b" "b \<le> B"
  shows "0 \<le> fadd a b \<and> fadd a b \<le> dbl (A + B)"
proof -
  have "0 \<le> a + b" "a + b \<le> A + B" using assms by simp_all
  then show ?thesis
    unfolding fadd_def using dbl_nonneg [of "a + b"] dbl_mono_nonneg [of "a + b" "A + B"] by simp
qed

lemma dbl_dbl_03: "dbl (dbl 0.3) = dbl 0.3"
  by (simp add: dbl_def expo.simps rne_def Let_def)

lemma dbl_dbl_02: "dbl (dbl 0.2) = dbl 0.2"
  by (simp add: dbl_def expo.simps rne_def Let_def)

lemma dbl_weights_sum: "dbl (dbl (1 / 2 + dbl 0.3) + dbl 0.2) = 1"
  by (simp add: dbl_def expo.simps rne_def Let_def)

lemma weighted_fp_bounds:
  assumes a: "0 \<le> a \<and> a \<le> 1" and b: "0 \<le> b \<and> b \<le> 1" and c: "0 \<le> c \<and> c \<le> 1"
  shows "0 \<le> fmul 100 (fadd (fadd (fmul 0.5 a) (fmul (dbl 0.3) b)) (fmul (dbl 0.2) c))
         \<and> fmul 100 (fadd (fadd (fmul 0.5 a) (fmul (dbl 0.3) b)) (fmul (dbl 0.2) c)) \<le> 100"
proof -
  define c03 where "c03 = dbl 0.3"
  define c02 where "c02 = dbl 0.2"
  define h :: real where "h = 0.5"
  have pos: "0 \<le> c03" "0 \<le> c02" "0 \<le> h"
    by (simp_all add: c03_def c02_def h_def dbl_nonneg)
  have fx: "dbl c03 = c03" "dbl c02 = c02" "dbl h = 1 / 2"
    by (simp_all only: c03_def c02_def h_def dbl_dbl_03 dbl_dbl_02) (simp add: dbl_half)
  have tp: "dbl (dbl (1 / 2 + c03) + c02) = 1"
    by (simp only: c03_def c02_def dbl_weights_sum)
  have 1: "0 \<le> fmul h a \<and> fmul h a \<le> 1 / 2"
    using fmul_le [of h a] a pos(3) unfolding fx by blast
  have 2: "0 \<le> fmul c03 b \<and> fmul c03 b \<le> c03"
    using fmul_le [of c03 b] b pos(1) unfolding fx by blast
  have 3: "0 \<le> fmul c02 c \<and> fmul c02 c \<le> c02"
    using fmul_le [of c02 c] c pos(2) unfolding fx by blast
  have 4: "0 \<le> fadd (fmul h a) (fmul c03 b)
           \<and> fadd (fmul h a) (fmul c03 b) \<le> dbl (1 / 2 + c03)"
    using fadd_le [of "fmul h a" "1 / 2" "fmul c03 b" c03] 1 2 by blast
  have 5: "0 \<le> fadd (fadd (fmul h a) (fmul c03 b)) (fmul c02 c)
           \<and> fadd (fadd (fmul h a) (fmul c03 b)) (fmul c02 c) \<le> 1"
    using fadd_le [of "fadd (fmul h a) (fmul c03 b)" "dbl (1 / 2 + c03)" "fmul c02 c" c02] 3 4
    unfolding tp by blast
  have "0 \<le> fmul 100 (fadd (fadd (fmul h a) (fmul c03 b)) (fmul c02 c))
        \<and> fmul 100 (fadd (fadd (fmul h a) (fmul c03 b)) (fmul c02 c)) \<le> dbl 100"
    using fmul_le [of 100 "fadd (fadd (fmul h a) (fmul c03 b)) (fmul c02 c)"] 5 by simp
  then show ?thesis unfolding c03_def c02_def h_def dbl_100 .
qed

lemma round_bounds:
  fixes x :: real
  assumes "0 \<le> x" and "x \<le> 100"
  shows "0 \<le> round x \<and> round x \<le> 100"
proof -
  have "round (0::real) \<le> round x" using assms by (intro round_mono) simp
  moreover have "round x \<le> round (100::real)" using assms by (intro round_mono) simp
  ultimately show ?thesis by simp
qed

text \<open>
  C8. With the sleep, heart-rate and steps series all empty the readiness computation
  returns 50: the sleep score is 0, the heart-rate score 1 and the steps score 1,
  whatever the other series hold. No read of the computation can fail: the last
  heart-rate record is only read when some record has a reading, and the last step count
  only when the average is not 0.
\<close>

theorem readiness_empty:
  "readiness \<lparr>sleepRows = [], hr7 = [], hrIntra = i, steps7 = [], cal7 = c\<rparr> = 50
   \<and> sleepScore (sleepMin []) = 0 \<and> hrScore [] = 1 \<and> stepsScore [] = 1
   \<and> sleepScore_fp (sleepMin []) = 0 \<and> hrScore_fp [] = 1 \<and> stepsScore_fp [] = 1"
proof -
  have sm: "sleepMin [] = 0"
    by (simp add: sleepMin_def sleepDates_def new_Set_def slice_last_def lastDate_def truthy_def)
  have a: "sleepScore_fp (sleepMin []) = 0"
    by (simp add: sm sleepScore_fp_def goal_def fdiv_def dbl_0)
  have b: "hrScore_fp [] = 1"
    by (simp add: hrScore_fp_def yesterday_fp_def weeklyAvg_fp_def hrAvg_fp_def fsub_def
        fdiv_def dbl_0 dbl_1)
  have c: "stepsScore_fp [] = 1"
    by (simp add: stepsScore_fp_def stepsScoreOf_fp_def rel_fp_def sAvg_fp_def stepsVals_fp_def
        dbl_def expo.simps rne_def Let_def)
  have "fmul 100 (fadd (fadd (fmul 0.5 0) (fmul (dbl 0.3) 1)) (fmul (dbl 0.2) 1)) = 50"
    by (simp add: fmul_def fadd_def dbl_def expo.simps rne_def Let_def)
  then have r: "readiness \<lparr>sleepRows = [], hr7 = [], hrIntra = i, steps7 = [], cal7 = c\<rparr> = 50"
    by (simp add: readiness_def a b c)
  have e: "sleepScore (sleepMin []) = 0 \<and> hrScore [] = 1 \<and> stepsScore [] = 1"
    by (simp add: sm sleepScore_def goal_def hrScore_def yesterday_def
      weeklyAvg_def hrAvg_def stepsScore_def stepsScoreOf_def rel_def sAvg_def stepsVals_def)
  show ?thesis using r e a b c by blast
qed

text \<open>
  C1. For every snapshot (whose segments use no inherited property name as date or
  stage, so that the aggregation is the program's) the readiness score is an integer
  between 0 and 100: it is the rounded product of 100 and the weighted sum of three
  component scores between 0 and 1, computed in double precision, where the weights
  \<^verbatim>\<open>0.5\<close>, \<^verbatim>\<open>0.3\<close> and \<^verbatim>\<open>0.2\<close> add up to exactly 1 and rounding to a double is
  monotone.
\<close>

theorem readiness_range:
  assumes "plain_rows (sleepRows s)"
  shows
  "0 \<le> readiness s \<and> readiness s \<le> 100
   \<and> readiness s =
       round (fmul 100
         (fadd (fadd (fmul 0.5 (sleepScore_fp (sleepMin (sleepRows s))))
                     (fmul (dbl 0.3) (hrScore_fp (hr7 s))))
               (fmul (dbl 0.2) (stepsScore_fp (steps7 s)))))
   \<and> 0 \<le> sleepScore_fp m \<and> sleepScore_fp m \<le> 1
   \<and> 0 \<le> hrScore_fp hs \<and> hrScore_fp hs \<le> 1
   \<and> 0 \<le> stepsScore_fp ss \<and> stepsScore_fp ss \<le> 1"
proof -
  have "0 \<le> readiness s \<and> readiness s \<le> 100"
    unfolding readiness_def
    by (intro round_bounds)
      (use weighted_fp_bounds [OF sleepScore_fp_bounds hrScore_fp_bounds stepsScore_fp_bounds]
        in blast)+
  then show ?thesis
    using sleepScore_fp_bounds [of m] hrScore_fp_bounds [of hs] stepsScore_fp_bounds [of ss]
    by (simp add: readiness_def)
qed

text \<open>
  A night of 264 minutes with no heart-rate and no step data scores 77: the weighted sum
  is the double just below 0.775, where exact arithmetic would give 77.5 and 78. A night
  of 250 + 92 + 95 minutes, a heart rate of 70 against a weekly average of 65 and a step
  count well above the weekly average score 84.
\<close>

theorem readiness_range_witness:
  "plain_rows [\<lparr>date = ''2024-05-02'', stage = ''Light sleep'', mins = Some 264\<rparr>]
   \<and> readiness
     \<lparr>sleepRows = [\<lparr>date = ''2024-05-02'', stage = ''Light sleep'', mins = Some 264\<rparr>],
      hr7 = [], hrIntra = [], steps7 = [], cal7 = []\<rparr> = 77
   \<and> plain_rows
        [\<lparr>date = ''2024-05-01'', stage = ''Light sleep'', mins = Some 200\<rparr>,
         \<lparr>date = ''2024-05-02'', stage = ''Light sleep'', mins = Some 250\<rparr>,
         \<lparr>date = ''2024-05-02'', stage = ''Awake'', mins = Some 14\<rparr>,
         \<lparr>date = ''2024-05-02'', stage = ''Deep sleep'', mins = Some 92\<rparr>,
         \<lparr>date = ''2024-05-02'', stage = ''REM sleep'', mins = Some 95\<rparr>]
   \<and> readiness
     \<lparr>sleepRows =
        [\<lparr>date = ''2024-05-01'', stage = ''Light sleep'', mins = Some 200\<rparr>,
         \<lparr>date = ''2024-05-02'', stage = ''Light sleep'', mins = Some 250\<rparr>,
         \<lparr>date = ''2024-05-02'', stage = ''Awake'', mins = Some 14\<rparr>,
         \<lparr>date = ''2024-05-02'', stage = ''Deep sleep'', mins = Some 92\<rparr>,
         \<lparr>date = ''2024-05-02'', stage = ''REM sleep'', mins = Some 95\<rparr>],
      hr7 =
        [\<lparr>date = ''2024-04-30'', avg_bpm = Some 60, min_bpm = None, max_bpm = None\<rparr>,
         \<lparr>date = ''2024-05-01'', avg_bpm = None, min_bpm = None, max_bpm = None\<rparr>,
         \<lparr>date = ''2024-05-02'', avg_bpm = Some 70, min_bpm = Some 48, max_bpm = Some 120\<rparr>],
      hrIntra = [],
      steps7 =
        [\<lparr>date = ''2024-05-01'', steps = Some 8000\<rparr>,
         \<lparr>date = ''2024-05-02'', steps = Some 20000\<rparr>],
      cal7 = []\<rparr> = 84"
proof -
  let ?one = "[\<lparr>date = ''2024-05-02'', stage = ''Light sleep'', mins = Some 264\<rparr>]"
  let ?s1 = "\<lparr>sleepRows = ?one, hr7 = [], hrIntra = [], steps7 = [], cal7 = []\<rparr>"
  let ?rows = "[\<lparr>date = ''2024-05-01'', stage = ''Light sleep'', mins = Some 200\<rparr>,
         \<lparr>date = ''2024-05-02'', stage = ''Light sleep'', mins = Some 250\<rparr>,
         \<lparr>date = ''2024-05-02'', stage = ''Awake'', mins = Some 14\<rparr>,
         \<lparr>date = ''2024-05-02'', stage = ''Deep sleep'', mins = Some 92\<rparr>,
         \<lparr>date = ''2024-05-02'', stage = ''REM sleep'', mins = Some 95\<rparr>]"
  let ?hr = "[\<lparr>date = ''2024-04-30'', avg_bpm = Some 60, min_bpm = None, max_bpm = None\<rparr>,
         \<lparr>date = ''2024-05-01'', avg_bpm = None, min_bpm = None, max_bpm = None\<rparr>,
         \<lparr>date = ''2024-05-02'', avg_bpm = Some 70, min_bpm = Some 48, max_bpm = Some 120\<rparr>]"
  let ?steps = "[\<lparr>date = ''2024-05-01'', steps = Some 8000\<rparr>,
         \<lparr>date = ''2024-05-02'', steps = Some 20000\<rparr>]"
  let ?s2 = "\<lparr>sleepRows = ?rows, hr7 = ?hr, hrIntra = [], steps7 = ?steps, cal7 = []\<rparr>"
  have sd1: "sleepDates ?one = [''2024-05-02'']"
    by (simp add: sleepDates_def slice_last_def new_Set_def)
  have t1: "totalSleepMinutes (sleepByDate ?one) ''2024-05-02'' = 264"
    by (simp add: totalSleepMinutes_stages stageMinutes_sleepByDate fp_eval)
  have sm1: "sleepMin ?one = 264"
    by (simp add: sleepMin_last sd1 lastDate_def truthy_def t1)
  have a1: "sleepScore_fp (sleepMin ?one) = 2476979795053773 / 4503599627370496"
    by (simp add: sm1 sleepScore_fp_def goal_def fp_eval)
  have b0: "hrScore_fp [] = 1"
    by (simp add: hrScore_fp_def yesterday_fp_def weeklyAvg_fp_def hrAvg_fp_def fp_eval)
  have c0: "stepsScore_fp [] = 1"
    by (simp add: stepsScore_fp_def stepsScoreOf_fp_def rel_fp_def sAvg_fp_def stepsVals_fp_def
        fp_eval)
  have v1: "round (fmul 100 (fadd (fadd (fmul 0.5 (2476979795053773 / 4503599627370496))
                (fmul (dbl 0.3) 1)) (fmul (dbl 0.2) 1))) = 77"
    by (simp add: round_def fp_eval)
  have p1: "plain_rows ?one" and p2: "plain_rows ?rows"
    by (simp_all add: plain_rows_def plain_key_def inherited_names_def)
  have q1: "plain_rows (sleepRows ?s1)" and q2: "plain_rows (sleepRows ?s2)"
    using p1 p2 by simp_all
  have r1: "readiness ?s1 = 77"
    using readiness_range [OF q1, THEN conjunct2, THEN conjunct2, THEN conjunct1]
    by (simp only: snapshot.select_convs a1 b0 c0 v1)
  have sd2: "sleepDates ?rows = [''2024-05-01'', ''2024-05-02'']"
    by (simp add: sleepDates_def slice_last_def new_Set_def)
  have t2: "totalSleepMinutes (sleepByDate ?rows) ''2024-05-02'' = 437"
    by (simp add: totalSleepMinutes_stages stageMinutes_sleepByDate fp_eval)
  have sm2: "sleepMin ?rows = 437"
    by (simp add: sleepMin_last sd2 lastDate_def truthy_def t2)
  have a2: "sleepScore_fp (sleepMin ?rows) = 4100152160751889 / 4503599627370496"
    by (simp add: sm2 sleepScore_fp_def goal_def fp_eval)
  have w2: "weeklyAvg_fp ?hr = 65"
    by (simp add: weeklyAvg_fp_def hrAvg_fp_def fp_eval)
  have y2: "yesterday_fp ?hr = 70"
    by (simp add: yesterday_fp_def hrAvg_fp_def fp_eval)
  have b2: "hrScore_fp ?hr = 3 / 4"
    by (simp add: hrScore_fp_def w2 y2 fp_eval)
  have sa: "sAvg_fp ?steps = 14000"
    by (simp add: sAvg_fp_def stepsVals_fp_def fp_eval)
  have rl: "rel_fp ?steps = 6433713753386423 / 4503599627370496"
    by (simp add: rel_fp_def sa stepsVals_fp_def fp_eval)
  have c2: "stepsScore_fp ?steps = 3602879701896397 / 4503599627370496"
    by (simp add: stepsScore_fp_def stepsScoreOf_fp_def rl fp_eval)
  have v2: "round (fmul 100 (fadd (fadd (fmul 0.5 (4100152160751889 / 4503599627370496))
                (fmul (dbl 0.3) (3 / 4))) (fmul (dbl 0.2) (3602879701896397 / 4503599627370496))))
             = 84"
    by (simp add: round_def fp_eval)
  have r2: "readiness ?s2 = 84"
    using readiness_range [OF q2, THEN conjunct2, THEN conjunct2, THEN conjunct1]
    by (simp only: snapshot.select_convs a2 b2 c2 v2)
  show ?thesis using p1 p2 r1 r2 by blast
qed



text \<open>
  C10. Replacing the calories series of a snapshot changes neither the readiness score nor
  any of its three component scores.
\<close>

theorem readiness_ignores_calories:
  "readiness (s\<lparr>cal7 := c\<rparr>) = readiness s
   \<and> sleepScore (sleepMin (sleepRows (s\<lparr>cal7 := c\<rparr>))) = sleepScore (sleepMin (sleepRows s))
   \<and> hrScore (hr7 (s\<lparr>cal7 := c\<rparr>)) = hrScore (hr7 s)
   \<and> stepsScore (steps7 (s\<lparr>cal7 := c\<rparr>)) = stepsScore (steps7 s)
   \<and> sleepScore_fp (sleepMin (sleepRows (s\<lparr>cal7 := c\<rparr>))) = sleepScore_fp (sleepMin (sleepRows s))
   \<and> hrScore_fp (hr7 (s\<lparr>cal7 := c\<rparr>)) = hrScore_fp (hr7 s)
   \<and> stepsScore_fp (steps7 (s\<lparr>cal7 := c\<rparr>)) = stepsScore_fp (steps7 s)"
  by (simp add: readiness_def)



subsection \<open>Heart-rate component\<close>




subsection \<open>Projection\<close>

text \<open>
  C5, as the code has it. \<open>lastR\<close> is the last score of the history and \<open>meanR\<close> the
  rounded mean, both 70 for an empty history; each forecast is the rounded blend of 0.6
  of the previous value and 0.4 of \<open>meanR\<close>; the dataset is the last three scores
  followed by the three forecasts. For the history 70, 75, 80 the forecasts are 78, 77
  and 76.
\<close>

theorem projection_recurrence:
  "lastR hist = (if hist = [] then 70 else last hist)
   \<and> meanR hist =
       (if hist = [] then 70 else round (real_of_int (sum_list hist) / real (length hist)))
   \<and> proj1 hist = round (0.6 * real_of_int (lastR hist) + 0.4 * real_of_int (meanR hist))
   \<and> proj2 hist = round (0.6 * real_of_int (proj1 hist) + 0.4 * real_of_int (meanR hist))
   \<and> proj3 hist = round (0.6 * real_of_int (proj2 hist) + 0.4 * real_of_int (meanR hist))
   \<and> projection hist = drop (length hist - 3) hist @ [proj1 hist, proj2 hist, proj3 hist]
   \<and> projection [70, 75, 80] = [70, 75, 80, 78, 77, 76]"
proof -
  have ex: "projection [70, 75, 80] = [70, 75, 80, 78, 77, 76]"
    by (simp add: lastR_def meanR_def proj1_def proj2_def proj3_def projection_def
        slice_last_def reduce_add_def round_def)
  have "lastR hist = (if hist = [] then 70 else last hist)"
    and "meanR hist =
       (if hist = [] then 70 else round (real_of_int (sum_list hist) / real (length hist)))"
    and "projection hist = drop (length hist - 3) hist @ [proj1 hist, proj2 hist, proj3 hist]"
    by (simp_all add: lastR_def meanR_def projection_def slice_last_def reduce_add_sum_list)
  then show ?thesis
    using ex proj1_def [of hist] proj2_def [of hist] proj3_def [of hist] by blast
qed

text \<open>
  The third forecast of the history 70, 75, 80 is \<open>round (0.6 * 77 + 0.4 * 75)\<close>, which is
  \<open>round 76.2 = 76\<close>, not 77.
\<close>

theorem projection_example_counterexample:
  "proj1 [70, 75, 80] = 78 \<and> proj2 [70, 75, 80] = 77 \<and> proj3 [70, 75, 80] = 76
   \<and> proj3 [70, 75, 80] \<noteq> 77"
  by (simp add: lastR_def meanR_def proj1_def proj2_def proj3_def reduce_add_def round_def)

subsection \<open>Chart data\<close>

lemma trendPoint_cases:
  "trendPoint JUndefined = None \<and> trendPoint JNull = None \<and> trendPoint JEmptyString = None
   \<and> trendPoint (JNumber n) = Some n"
  by (simp add: trendPoint_def)

lemma barPoint_cases:
  "barPoint JUndefined = Num 0 \<and> barPoint JNull = Num 0 \<and> barPoint JEmptyString = Num 0
   \<and> barPoint (JNumber (Num x)) = Num x \<and> barPoint (JNumber PosInfinity) = PosInfinity
   \<and> barPoint (JNumber NegInfinity) = NegInfinity"
  by (simp add: barPoint_def)

lemma trendPoint_no_NaN: "absent_or_number v \<Longrightarrow> trendPoint v \<noteq> Some NaN"
  by (cases v) (simp_all add: absent_or_number_def trendPoint_def)

lemma barPoint_no_NaN: "absent_or_number v \<Longrightarrow> barPoint v \<noteq> NaN"
  by (cases v) (auto simp: absent_or_number_def barPoint_def)

text \<open>
  C6, as the code has it. Both components keep the labels and map every entry of every
  series (no series when \<^verbatim>\<open>data\<close> is missing). The line chart turns \<^verbatim>\<open>undefined\<close>,
  \<^verbatim>\<open>null\<close> and \<^verbatim>\<open>''\<close> into \<^verbatim>\<open>null\<close> and leaves a number as it is. The stacked bar
  chart turns \<^verbatim>\<open>undefined\<close>, \<^verbatim>\<open>null\<close> and \<^verbatim>\<open>''\<close> into 0 and leaves a number other than
  \<^verbatim>\<open>NaN\<close> as it is. Neither emits \<^verbatim>\<open>NaN\<close> for an entry that is absent, empty or a number
  other than \<^verbatim>\<open>NaN\<close>.
\<close>

theorem chart_coercion:
  "map label (TrendLine ds) = map label ds \<and> map label (StackedBar ds) = map label ds
   \<and> map data (TrendLine ds) =
       map (\<lambda>d. map trendPoint (case data d of None \<Rightarrow> [] | Some vs \<Rightarrow> vs)) ds
   \<and> map data (StackedBar ds) =
       map (\<lambda>d. map barPoint (case data d of None \<Rightarrow> [] | Some vs \<Rightarrow> vs)) ds
   \<and> trendPoint JUndefined = None \<and> trendPoint JNull = None \<and> trendPoint JEmptyString = None
   \<and> trendPoint (JNumber n) = Some n
   \<and> barPoint JUndefined = Num 0 \<and> barPoint JNull = Num 0 \<and> barPoint JEmptyString = Num 0
   \<and> barPoint (JNumber (Num x)) = Num x \<and> barPoint (JNumber PosInfinity) = PosInfinity
   \<and> barPoint (JNumber NegInfinity) = NegInfinity
   \<and> (absent_or_number v \<longrightarrow> trendPoint v \<noteq> Some NaN \<and> barPoint v \<noteq> NaN)"
proof -
  have "map label (TrendLine ds) = map label ds" "map label (StackedBar ds) = map label ds"
    "map data (TrendLine ds) =
       map (\<lambda>d. map trendPoint (case data d of None \<Rightarrow> [] | Some vs \<Rightarrow> vs)) ds"
    "map data (StackedBar ds) =
       map (\<lambda>d. map barPoint (case data d of None \<Rightarrow> [] | Some vs \<Rightarrow> vs)) ds"
    by (simp_all add: TrendLine_def StackedBar_def comp_def)
  then show ?thesis
    using trendPoint_cases [of n] barPoint_cases [of x]
      trendPoint_no_NaN [of v] barPoint_no_NaN [of v]
    by blast
qed

text \<open>
  A heart-rate series with a gap and a step series with an empty cell: the gaps stay
  \<^verbatim>\<open>null\<close> on the line chart and become 0 on the stacked bars.
\<close>

theorem chart_coercion_witness:
  "absent_or_number JNull \<and> absent_or_number (JNumber (Num 61))
   \<and> map data (TrendLine [\<lparr>label = ''Avg'', data = Some [JNumber (Num 61), JNull, JEmptyString]\<rparr>,
                          \<lparr>label = ''Min'', data = None\<rparr>])
       = [[Some (Num 61), None, None], []]
   \<and> map data (StackedBar [\<lparr>label = ''Avg'', data = Some [JNumber (Num 61), JNull, JEmptyString]\<rparr>,
                           \<lparr>label = ''Min'', data = None\<rparr>])
       = [[Num 61, Num 0, Num 0], []]"
  using chart_coercion
    [of "[\<lparr>label = ''Avg'', data = Some [JNumber (Num 61), JNull, JEmptyString]\<rparr>,
          \<lparr>label = ''Min'', data = None\<rparr>]" "Num 61" 61 JNull]
  by (simp add: absent_or_number_def)

text \<open>
  A \<^verbatim>\<open>null\<close> entry of a stacked bar series is emitted as 0, not \<^verbatim>\<open>null\<close>; a string
  that is not a numeric literal (\<^verbatim>\<open>'abc'\<close>) is emitted as \<^verbatim>\<open>NaN\<close> by both components,
  and so is a \<^verbatim>\<open>NaN\<close> entry by the line chart.
\<close>

theorem chart_coercion_counterexample:
  "data (hd (StackedBar [\<lparr>label = ''Light sleep'', data = Some [JNull]\<rparr>])) = [Num 0]
   \<and> data (hd (TrendLine [\<lparr>label = ''Avg'', data = Some [JString NaN]\<rparr>])) = [Some NaN]
   \<and> data (hd (StackedBar [\<lparr>label = ''Avg'', data = Some [JString NaN]\<rparr>])) = [NaN]
   \<and> data (hd (TrendLine [\<lparr>label = ''Avg'', data = Some [JNumber NaN]\<rparr>])) = [Some NaN]"
  by (simp add: StackedBar_def TrendLine_def barPoint_def trendPoint_def)

end
